theory Spec2Isabelle
  imports Main "HOL-Library.Sublist"
begin

section \<open>Data model of the video generator component\<close>

text \<open>
  The scene timeline of \<^verbatim>\<open>VideoGenerator\<close> (src/unnamed/part_000). A scene is the
  interface \<^verbatim>\<open>VideoScene\<close>; the optional fields are options, the field \<^verbatim>\<open>id\<close> is
  called \<open>scene_id\<close> (\<open>id\<close> is the identity function of HOL), and the opaque
  \<^verbatim>\<open>asset: any\<close> is a string token. A \<^verbatim>\<open>number\<close> that the component only ever
  fills with integers (durations, counts, slider values) is an \<open>int\<close>.
\<close>

datatype TransitionType = cut | fade | slide

record VideoScene =
  scene_id :: string
  url :: string
  asset :: string
  prompt :: string
  duration :: int
  transition :: TransitionType
  audioUrl :: "string option"
  audioScript :: "string option"
  mergedUrl :: "string option"
  isMerging :: "bool option"

datatype PlayerId = A | B

datatype OutputFormat = MP4 | GIF

text \<open>
  The React state of the component (the \<^verbatim>\<open>useState\<close> cells and the one
  \<^verbatim>\<open>useRef\<close> flag that the modelled handlers read or write). The state cell
  \<^verbatim>\<open>prompt\<close> is \<open>prompt_input\<close> here, since \<open>prompt\<close> is the scene's field. Cells
  that are only handed on to the generator or the style sheet (aspect ratio, resolution,
  frame rate, seed, volumes, tabs, modal flags) are left out.
\<close>

record State =
  selectedImage :: "string option"
  prompt_input :: string
  isGenerating :: bool
  isAutoGenerating :: bool
  autoGenCount :: int
  isAutoAudio :: bool
  stopAutoGenerationRef :: bool
  coolDown :: int
  timeline :: "VideoScene list"
  selectedSceneIds :: "string set"
  activeSceneIndex :: nat
  isPlayingAll :: bool
  sceneDuration :: int
  stylePreset :: string
  motionIntensity :: int
  consistency :: int
  outputFormat :: OutputFormat
  isLooping :: bool
  voiceText :: string
  voiceName :: string
  isGeneratingAudio :: bool
  error :: "string option"
  isApiKeyError :: bool
  isSafetyError :: bool
  isQuotaError :: bool
  activePlayer :: PlayerId
  isTransitioning :: bool
  transitionType :: TransitionType

text \<open>The initial values of the \<^verbatim>\<open>useState\<close> calls (lines 131-187).\<close>

definition initialState :: State where
  "initialState = \<lparr>
     selectedImage = None, prompt_input = [], isGenerating = False,
     isAutoGenerating = False, autoGenCount = 3, isAutoAudio = False,
     stopAutoGenerationRef = False, coolDown = 0, timeline = [],
     selectedSceneIds = {}, activeSceneIndex = 0, isPlayingAll = False,
     sceneDuration = 8, stylePreset = ''None'', motionIntensity = 5, consistency = 5,
     outputFormat = MP4, isLooping = False, voiceText = [], voiceName = ''Kore'',
     isGeneratingAudio = False, error = None, isApiKeyError = False,
     isSafetyError = False, isQuotaError = False, activePlayer = A,
     isTransitioning = False, transitionType = cut \<rparr>"

subsection \<open>Timeline patches\<close>

text \<open>
  \<^verbatim>\<open>prev.map((s, i) => i === index ? f(s) : s)\<close>: the patch addressed by position.
\<close>

definition patchAt :: "nat \<Rightarrow> (VideoScene \<Rightarrow> VideoScene) \<Rightarrow> VideoScene list \<Rightarrow> VideoScene list" where
  "patchAt index f prev = map (\<lambda>(i, s). if i = index then f s else s) (enumerate 0 prev)"

text \<open>
  \<^verbatim>\<open>prev.map(s => s.id === id ? f(s) : s)\<close>: the patch addressed by scene id.
\<close>

definition patchId :: "string \<Rightarrow> (VideoScene \<Rightarrow> VideoScene) \<Rightarrow> VideoScene list \<Rightarrow> VideoScene list" where
  "patchId i f prev = map (\<lambda>s. if scene_id s = i then f s else s) prev"

subsection \<open>The duration control\<close>

text \<open>
  \<^verbatim>\<open>handleDurationChange\<close> (lines 244-252). \<open>val\<close> is \<^verbatim>\<open>parseInt(e.target.value)\<close>,
  an integer since the value of a range input is a decimal numeral;
  the handler stores it in the default for new scenes and, when the timeline is not
  empty, in the scene at the active index. It reads \<^verbatim>\<open>timeline.length\<close> and
  \<^verbatim>\<open>activeSceneIndex\<close> of the render it belongs to, which for a synchronous event
  handler is the current state.
\<close>

definition handleDurationChange :: "int \<Rightarrow> State \<Rightarrow> State" where
  "handleDurationChange val s =
     (let s1 = s\<lparr>sceneDuration := val\<rparr> in
      if length (timeline s) > 0
      then s1\<lparr>timeline := patchAt (activeSceneIndex s) (\<lambda>sc. sc\<lparr>duration := val\<rparr>) (timeline s1)\<rparr>
      else s1)"

text \<open>
  The range of the slider that calls the handler (\<^verbatim>\<open>min="1" max="15"\<close>, lines
  883-884), as a predicate on stored durations.
\<close>

definition inSliderRange :: "int \<Rightarrow> bool" where
  "inSliderRange d = (1 \<le> d \<and> d \<le> 15)"

definition durationsInRange :: "State \<Rightarrow> bool" where
  "durationsInRange s = (inSliderRange (sceneDuration s) \<and> list_all (\<lambda>sc. inSliderRange (duration sc)) (timeline s))"

text \<open>
  The element that calls the handler (lines 881-888):
  \<^verbatim>\<open><input type="range" min="1" max="15" step="1" onChange={handleDurationChange}/>\<close>.
  A range input holds a value between its minimum and its maximum: set to a number
  below the minimum it holds the minimum, set to one above the maximum it holds the
  maximum (the value sanitization of the element, with whole numbers for step 1).
  \<open>rangeInput lo hi v\<close> is the value the element holds when it is set to \<open>v\<close>.
\<close>

definition rangeInput :: "int \<Rightarrow> int \<Rightarrow> int \<Rightarrow> int" where
  "rangeInput lo hi v = (if v < lo then lo else if v > hi then hi else v)"

text \<open>
  Setting the duration through the control: the element takes the value and hands what
  it holds to \<^verbatim>\<open>handleDurationChange\<close>, its only caller.
\<close>

definition durationControl :: "int \<Rightarrow> State \<Rightarrow> State" where
  "durationControl v s = handleDurationChange (rangeInput 1 15 v) s"

text \<open>
  Lines 686-696: \<^verbatim>\<open>toggleTransition\<close> moves the transition of the scene at an index
  to the next of cut, fade, slide.
\<close>

definition nextTransition :: "TransitionType \<Rightarrow> TransitionType" where
  "nextTransition t = (case t of cut \<Rightarrow> fade | fade \<Rightarrow> slide | slide \<Rightarrow> cut)"

definition toggleTransition :: "nat \<Rightarrow> State \<Rightarrow> State" where
  "toggleTransition index s =
     s\<lparr>timeline := patchAt index (\<lambda>sc. sc\<lparr>transition := nextTransition (transition sc)\<rparr>)
                      (timeline s)\<rparr>"

text \<open>A scene as a first generation leaves it, for examples.\<close>

definition demoScene :: "string \<Rightarrow> string \<Rightarrow> int \<Rightarrow> VideoScene" where
  "demoScene i u d = \<lparr> scene_id = i, url = u, asset = ''asset'', prompt = ''a fox'',
     duration = d, transition = cut, audioUrl = None, audioScript = None,
     mergedUrl = None, isMerging = None \<rparr>"

subsection \<open>Strings and numbers of the host language\<close>

text \<open>
  JavaScript truthiness of an optional string: \<^verbatim>\<open>undefined\<close>, \<^verbatim>\<open>null\<close> and the
  empty string are falsy.
\<close>

definition truthy :: "string option \<Rightarrow> bool" where
  "truthy u = (case u of None \<Rightarrow> False | Some v \<Rightarrow> v \<noteq> [])"

text \<open>\<^verbatim>\<open>a || b\<close> on an optional and a plain string.\<close>

definition orElse :: "string option \<Rightarrow> string \<Rightarrow> string" where
  "orElse u d = (case u of None \<Rightarrow> d | Some v \<Rightarrow> if v = [] then d else v)"

text \<open>
  \<^verbatim>\<open>!s.trim()\<close>: the string holds white space only. A character here is one of
  the code points 0 to 255; the white space that \<^verbatim>\<open>trim\<close> strips among them is the
  space, the tab, the line feed, the vertical tab, the form feed, the carriage return and
  the no-break space. Text with code points above 255 (where \<^verbatim>\<open>trim\<close> knows further
  white space) is outside this type.
\<close>

definition isWhiteSpace :: "char \<Rightarrow> bool" where
  "isWhiteSpace c =
     (c \<in> set [CHR '' '', CHR 0x09, CHR 0x0A, CHR 0x0B, CHR 0x0C, CHR 0x0D, CHR 0xA0])"

definition blank :: "string \<Rightarrow> bool" where
  "blank s = list_all isWhiteSpace s"

definition trimStart :: "string \<Rightarrow> string" where
  "trimStart s = dropWhile isWhiteSpace s"

text \<open>\<^verbatim>\<open>s.includes(sub)\<close>.\<close>

fun includesStr :: "string \<Rightarrow> string \<Rightarrow> bool" where
  "includesStr [] sub = (sub = [])"
| "includesStr (c # cs) sub = (take (length sub) (c # cs) = sub \<or> includesStr cs sub)"

text \<open>
  \<^verbatim>\<open>Date.now().toString()\<close>: the decimal numeral of an integer (the clock gives
  integers far below \<open>10^21\<close>, where JavaScript prints digits only).
\<close>

definition digitChar :: "nat \<Rightarrow> char" where
  "digitChar d = ''0123456789'' ! d"

fun natToString :: "nat \<Rightarrow> string" where
  "natToString n = (if n < 10 then [digitChar n] else natToString (n div 10) @ [digitChar (n mod 10)])"

declare natToString.simps [simp del]

definition numberToString :: "int \<Rightarrow> string" where
  "numberToString n = (if n < 0 then CHR ''-'' # natToString (nat (- n)) else natToString (nat n))"

subsection \<open>Generating one scene\<close>

text \<open>
  What the awaited collaborators of one \<^verbatim>\<open>executeGeneration\<close> call do: the key
  check of the host page may throw, \<^verbatim>\<open>generateVeoVideo\<close> may throw, or it returns
  \<^verbatim>\<open>{url, asset}\<close>. A thrown error is its \<^verbatim>\<open>message\<close>.
\<close>

datatype GenOutcome = KeyCheckThrows string | GenerateThrows string | GenerateReturns string string

text \<open>What a run of the sequencer does, in order, as seen from outside.\<close>

datatype Event =
    GenerateCall string
  | SceneAppended string
  | NarrationSpawned string
  | GenerationFailed
  | Throttle int

text \<open>
  Lines 444-458: the prompt sent to the generator, or the error thrown before any
  request is made. \<open>c\<close> is the render the handler closes over: \<^verbatim>\<open>timeline\<close>,
  \<^verbatim>\<open>prompt\<close>, \<^verbatim>\<open>selectedImage\<close> and the sliders are read from it, not from the
  live state.
\<close>

definition enhancedPrompt :: "State \<Rightarrow> bool \<Rightarrow> string + string" where
  "enhancedPrompt c isChain =
     (let isExtension = (timeline c \<noteq> []);
          p0 = (if isExtension \<and> blank (prompt_input c) \<and> isChain
                then ''Continue the action naturally, maintaining visual consistency.''
                else prompt_input c)
      in if \<not> isExtension \<and> \<not> truthy (selectedImage c) \<and> blank p0
         then Inl ''Please provide an image or a prompt to start.''
         else Inr (p0
           @ (if motionIntensity c > 7 then '' with high speed dynamic motion'' else [])
           @ (if consistency c > 7 then '', strictly adhering to visual details'' else [])
           @ (if outputFormat c = GIF then '', looped seamlessly'' else [])))"

text \<open>Lines 472-479: the scene built from a generator result at clock reading \<open>now\<close>.\<close>

definition newScene :: "State \<Rightarrow> string \<Rightarrow> string \<Rightarrow> string \<Rightarrow> int \<Rightarrow> VideoScene" where
  "newScene c p u a now = \<lparr> scene_id = numberToString now, url = u, asset = a, prompt = p,
     duration = sceneDuration c, transition = cut, audioUrl = None, audioScript = None,
     mergedUrl = None, isMerging = None \<rparr>"

text \<open>
  Lines 481-485: the updater of \<^verbatim>\<open>setTimeline\<close> appends to the live timeline and
  makes the new last position the active one.
\<close>

definition appendScene :: "VideoScene \<Rightarrow> State \<Rightarrow> State" where
  "appendScene sc s =
     (let updated = timeline s @ [sc]
      in s\<lparr>timeline := updated, activeSceneIndex := length updated - 1\<rparr>)"

text \<open>
  Lines 509-546: the \<^verbatim>\<open>catch\<close> block, first the message it works on, step by
  step. \<open>js\<close> stands for the JSON branch of lines 514-519: the \<^verbatim>\<open>error.message\<close> of
  the parsed text when it parses and has one, which is a string in the errors the
  service sends. A parsed \<^verbatim>\<open>error.message\<close> that is not a string would make the
  \<^verbatim>\<open>includes\<close> of line 521 throw inside the \<^verbatim>\<open>catch\<close> block; the type of \<open>js\<close>
  leaves that case out.
\<close>

definition unwrappedMessage :: "(string \<Rightarrow> string option) \<Rightarrow> string \<Rightarrow> string" where
  "unwrappedMessage js msg =
     (let m0 = (if msg = [] then ''Video generation failed.'' else msg)
      in if take 1 (trimStart m0) = ''{''
         then (case js m0 of None \<Rightarrow> m0 | Some m \<Rightarrow> if m = [] then m0 else m)
         else m0)"

definition safetyBlocked :: "(string \<Rightarrow> string option) \<Rightarrow> string \<Rightarrow> bool" where
  "safetyBlocked js msg = includesStr (unwrappedMessage js msg) ''safety filters''"

definition filteredMessage :: "(string \<Rightarrow> string option) \<Rightarrow> string \<Rightarrow> string" where
  "filteredMessage js msg =
     (if \<not> safetyBlocked js msg \<and>
         includesStr (unwrappedMessage js msg) ''Video generation failed or returned no URI''
      then ''Video generation failed. The content may have been filtered or could not be processed. Please try a different prompt or image.''
      else unwrappedMessage js msg)"

definition quotaExceeded :: "(string \<Rightarrow> string option) \<Rightarrow> string \<Rightarrow> bool" where
  "quotaExceeded js msg =
     (includesStr (filteredMessage js msg) ''429'' \<or> includesStr (filteredMessage js msg) ''quota'' \<or>
      includesStr (filteredMessage js msg) ''RESOURCE_EXHAUSTED'')"

definition quotaMessage :: "(string \<Rightarrow> string option) \<Rightarrow> string \<Rightarrow> string" where
  "quotaMessage js msg =
     (if quotaExceeded js msg
      then ''Quota Limit Reached. The system is backing off to let your quota reset. Please wait...''
      else filteredMessage js msg)"

definition accessDenied :: "(string \<Rightarrow> string option) \<Rightarrow> string \<Rightarrow> bool" where
  "accessDenied js msg =
     (includesStr (quotaMessage js msg) ''Requested entity was not found'' \<or>
      includesStr (quotaMessage js msg) ''API key'' \<or>
      includesStr (quotaMessage js msg) ''403'' \<or>
      includesStr (quotaMessage js msg) ''PERMISSION_DENIED'' \<or>
      includesStr (quotaMessage js msg) ''billing'')"

definition shownMessage :: "(string \<Rightarrow> string option) \<Rightarrow> string \<Rightarrow> string" where
  "shownMessage js msg =
     (if accessDenied js msg
      then ''Access Denied. Your API key may be invalid, missing, or lack Veo billing access.''
      else quotaMessage js msg)"

text \<open>The state the \<^verbatim>\<open>catch\<close> block leaves.\<close>

definition reportGenerationError :: "(string \<Rightarrow> string option) \<Rightarrow> string \<Rightarrow> State \<Rightarrow> State" where
  "reportGenerationError js msg s =
     (let s1 = (if safetyBlocked js msg then s\<lparr>isSafetyError := True\<rparr> else s);
          s2 = (if quotaExceeded js msg then s1\<lparr>isQuotaError := True, coolDown := 60\<rparr> else s1);
          s3 = (if accessDenied js msg then s2\<lparr>isApiKeyError := True\<rparr> else s2)
      in s3\<lparr>error := Some (shownMessage js msg)\<rparr>)"

text \<open>
  \<^verbatim>\<open>executeGeneration\<close> (lines 426-550) for the render \<open>c\<close> on the live state \<open>s\<close>:
  the value returned, the state after the \<^verbatim>\<open>finally\<close> block, and what happened. The
  detached narration task of lines 487-505 is only started here; its patches are
  \<open>narrationAttached\<close>, \<open>narrationMerged\<close> and \<open>narrationFailed\<close> below.
\<close>

definition executeGeneration ::
  "(string \<Rightarrow> string option) \<Rightarrow> State \<Rightarrow> bool \<Rightarrow> GenOutcome \<Rightarrow> int \<Rightarrow> State \<Rightarrow> bool \<times> State \<times> Event list" where
  "executeGeneration js c isChain out now s =
     (let s0 = s\<lparr>error := None, isApiKeyError := False, isSafetyError := False,
                 isQuotaError := False, isGenerating := True\<rparr>;
          failed = (\<lambda>msg evs. (False, (reportGenerationError js msg s0)\<lparr>isGenerating := False\<rparr>,
                                 evs @ [GenerationFailed]))
      in case out of
           KeyCheckThrows msg \<Rightarrow> failed msg []
         | _ \<Rightarrow>
           (case enhancedPrompt c isChain of
              Inl msg \<Rightarrow> failed msg []
            | Inr p \<Rightarrow>
              (case out of
                 GenerateReturns u a \<Rightarrow>
                   (let sc = newScene c p u a now
                    in (True, (appendScene sc s0)\<lparr>isGenerating := False\<rparr>,
                        [GenerateCall p, SceneAppended (scene_id sc)]
                        @ (if isAutoAudio c then [NarrationSpawned (scene_id sc)] else [])))
               | GenerateThrows msg \<Rightarrow> failed msg [GenerateCall p]
               | KeyCheckThrows msg \<Rightarrow> failed msg [])))"

text \<open>The three patches of the detached narration task, addressed by scene id.\<close>

definition narrationAttached :: "string \<Rightarrow> string \<Rightarrow> string \<Rightarrow> VideoScene list \<Rightarrow> VideoScene list" where
  "narrationAttached i speechUrl script prev =
     patchId i (\<lambda>s. s\<lparr>audioUrl := Some speechUrl, audioScript := Some script, isMerging := Some True\<rparr>) prev"

definition narrationMerged :: "string \<Rightarrow> string \<Rightarrow> VideoScene list \<Rightarrow> VideoScene list" where
  "narrationMerged i merged prev =
     patchId i (\<lambda>s. s\<lparr>mergedUrl := Some merged, isMerging := Some False\<rparr>) prev"

definition narrationFailed :: "string \<Rightarrow> VideoScene list \<Rightarrow> VideoScene list" where
  "narrationFailed i prev = patchId i (\<lambda>s. s\<lparr>isMerging := Some False\<rparr>) prev"

subsection \<open>The auto-generation sequencer\<close>

text \<open>\<^verbatim>\<open>handleStopAuto\<close> (lines 580-583).\<close>

definition handleStopAuto :: "State \<Rightarrow> State" where
  "handleStopAuto s = s\<lparr>stopAutoGenerationRef := True, isAutoGenerating := False\<rparr>"

text \<open>
  The world around one run: what the \<open>k\<close>-th generation's collaborators do, what the
  clock reads when its scene is built, and whether the user presses Stop while the
  \<open>k\<close>-th request, or the pause after it, is awaited.
\<close>

record RunEnv =
  gen :: "nat \<Rightarrow> GenOutcome"
  clock :: "nat \<Rightarrow> int"
  stopDuringGeneration :: "nat \<Rightarrow> bool"
  stopDuringDelay :: "nat \<Rightarrow> bool"

definition userStop :: "bool \<Rightarrow> State \<Rightarrow> State" where
  "userStop pressed s = (if pressed then handleStopAuto s else s)"

text \<open>
  One pass through the body of the \<^verbatim>\<open>while\<close> loop (lines 562-574) with the local
  variable \<open>count\<close>: \<open>None\<close> is the \<^verbatim>\<open>break\<close> of line 565, \<open>Some k\<close> is the value of
  \<^verbatim>\<open>keepGoing\<close> at the end of the body. The \<^verbatim>\<open>setTimeout(resolve, 5000)\<close> of line
  571 is the event \<open>Throttle 5000\<close>.
\<close>

definition loopBody ::
  "(string \<Rightarrow> string option) \<Rightarrow> State \<Rightarrow> RunEnv \<Rightarrow> nat \<Rightarrow> State \<Rightarrow> bool option \<times> State \<times> Event list" where
  "loopBody js c env count s =
     (case executeGeneration js c True (gen env count) (clock env count) s of
        (success, s1, ev1) \<Rightarrow>
          (let s2 = userStop (stopDuringGeneration env count) s1 in
           if \<not> success then (None, s2, ev1)
           else
             (let throttled = (int (count + 1) < autoGenCount c \<and> \<not> stopAutoGenerationRef s2);
                  s3 = (if throttled then userStop (stopDuringDelay env count) s2 else s2);
                  ev2 = (if throttled then [Throttle 5000] else []);
                  keepGoing = (\<not> (int (count + 1) \<ge> autoGenCount c \<or> stopAutoGenerationRef s3))
              in (Some keepGoing, s3, ev1 @ ev2))))"

text \<open>
  The \<^verbatim>\<open>while\<close> loop of lines 559-575, from the loop test on. It ends: \<open>count\<close>
  grows by one in every pass that does not break, and the test bounds it by
  \<^verbatim>\<open>autoGenCount\<close>.
\<close>

function autoLoop ::
  "(string \<Rightarrow> string option) \<Rightarrow> State \<Rightarrow> RunEnv \<Rightarrow> nat \<Rightarrow> bool \<Rightarrow> State \<Rightarrow> State \<times> Event list" where
  "autoLoop js c env count keepGoing s =
     (if keepGoing \<and> \<not> stopAutoGenerationRef s \<and> int count < autoGenCount c then
        (case loopBody js c env count s of
           (None, s2, ev) \<Rightarrow> (s2, ev)
         | (Some keepGoing', s3, ev) \<Rightarrow>
             (case autoLoop js c env (count + 1) keepGoing' s3 of
                (s4, ev3) \<Rightarrow> (s4, ev @ ev3)))
      else (s, []))"
  by pat_completeness auto
termination
  by (relation "measure (\<lambda>(js, c, env, count, keepGoing, s). nat (autoGenCount c - int count))") auto

declare autoLoop.simps [simp del]

text \<open>
  \<^verbatim>\<open>handleStartGeneration\<close> (lines 552-578), called on the state \<open>s\<close> (which is also
  the render it closes over).
\<close>

definition handleStartGeneration ::
  "(string \<Rightarrow> string option) \<Rightarrow> RunEnv \<Rightarrow> State \<Rightarrow> State \<times> Event list" where
  "handleStartGeneration js env s =
     (if coolDown s > 0 then (s, [])
      else
        (let s1 = s\<lparr>stopAutoGenerationRef := False\<rparr> in
         if \<not> isAutoGenerating s
         then (case executeGeneration js s False (gen env 0) (clock env 0) s1 of
                 (success, s2, ev) \<Rightarrow> (userStop (stopDuringGeneration env 0) s2, ev))
         else (case autoLoop js s env 0 True s1 of
                 (s2, ev) \<Rightarrow> (s2\<lparr>isAutoGenerating := False\<rparr>, ev))))"

subsection \<open>Attaching a voice-over to the active scene\<close>

text \<open>\<^verbatim>\<open>timeline[index]\<close>: \<^verbatim>\<open>undefined\<close> outside the array.\<close>

definition sceneAt :: "VideoScene list \<Rightarrow> nat \<Rightarrow> VideoScene option" where
  "sceneAt scenes i = (if i < length scenes then Some (scenes ! i) else None)"

text \<open>\<^verbatim>\<open>clearTimeline\<close> (lines 212-220); \<open>confirmed\<close> is the answer to the dialog.\<close>

definition clearTimeline :: "bool \<Rightarrow> State \<Rightarrow> State" where
  "clearTimeline confirmed s =
     (if confirmed
      then s\<lparr>timeline := [], selectedSceneIds := {}, activeSceneIndex := 0,
             prompt_input := [], error := None\<rparr>
      else s)"

text \<open>
  The world around one \<^verbatim>\<open>handleGenerateVoiceover\<close> call: the results of
  \<^verbatim>\<open>generateCreativeScript\<close> and \<^verbatim>\<open>generateSpeech\<close> (\<open>Inl\<close> the message of a
  thrown error), the merge engine as a function of the two URLs it is given, and what
  other handlers do to the live state while each of the three requests is awaited.
\<close>

record VoiceEnv =
  script :: "string + string"
  speech :: "string + string"
  mergeVideoAudio :: "string \<Rightarrow> string \<Rightarrow> string + string"
  duringScript :: "State \<Rightarrow> State"
  duringSpeech :: "State \<Rightarrow> State"
  duringMerge :: "State \<Rightarrow> State"

text \<open>The outer \<^verbatim>\<open>catch\<close> block (lines 412-418).\<close>

definition reportAudioError :: "string \<Rightarrow> State \<Rightarrow> State" where
  "reportAudioError msg s =
     (let s1 = s\<lparr>error := Some (''Audio generation failed: '' @ msg)\<rparr>
      in if includesStr msg ''429'' then s1\<lparr>isQuotaError := True, coolDown := 30\<rparr> else s1)"

text \<open>
  The three \<^verbatim>\<open>setTimeline\<close> updaters of \<^verbatim>\<open>handleGenerateVoiceover\<close> (lines 400, 406
  and 409), each on the live state and addressed by the position \<^verbatim>\<open>sceneIndex\<close>.
\<close>

definition voiceoverAttached :: "nat \<Rightarrow> string \<Rightarrow> string \<Rightarrow> State \<Rightarrow> State" where
  "voiceoverAttached sceneIndex audio textToSpeak s =
     s\<lparr>timeline := patchAt sceneIndex
          (\<lambda>sc. sc\<lparr>audioUrl := Some audio, audioScript := Some textToSpeak, isMerging := Some True\<rparr>)
          (timeline s)\<rparr>"

definition voiceoverMerged :: "nat \<Rightarrow> string \<Rightarrow> State \<Rightarrow> State" where
  "voiceoverMerged sceneIndex merged s =
     s\<lparr>timeline := patchAt sceneIndex
          (\<lambda>sc. sc\<lparr>mergedUrl := Some merged, isMerging := Some False\<rparr>) (timeline s)\<rparr>"

definition voiceoverMergeFailed :: "nat \<Rightarrow> State \<Rightarrow> State" where
  "voiceoverMergeFailed sceneIndex s =
     s\<lparr>timeline := patchAt sceneIndex (\<lambda>sc. sc\<lparr>isMerging := Some False\<rparr>) (timeline s)\<rparr>"

text \<open>
  \<^verbatim>\<open>handleGenerateVoiceover\<close> (lines 374-422), called on the state \<open>c\<close>. The
  handler keeps \<^verbatim>\<open>sceneIndex\<close> and the array \<^verbatim>\<open>timeline\<close> of its render across the
  awaits: the video it merges is \<^verbatim>\<open>timeline[sceneIndex]\<close> of that render. Reading a
  field of \<^verbatim>\<open>undefined\<close> throws a \<^verbatim>\<open>TypeError\<close>. The component renders, with
  the audio attached and the old fields otherwise, while \<^verbatim>\<open>mergeVideoAudio\<close> is
  awaited: that state is the argument of \<open>duringMerge\<close>.
\<close>

definition handleGenerateVoiceover :: "bool \<Rightarrow> VoiceEnv \<Rightarrow> State \<Rightarrow> State" where
  "handleGenerateVoiceover useAutoScript env c =
     (let sceneIndex = activeSceneIndex c;
          s0 = c\<lparr>isGeneratingAudio := True\<rparr>
      in if length (timeline c) = 0
         then s0\<lparr>error := Some ''Generate a video scene first to attach audio to.'',
                 isGeneratingAudio := False\<rparr>
         else
           (case (if useAutoScript
                  then (case sceneAt (timeline c) sceneIndex of
                          None \<Rightarrow> (Inl ''TypeError'', s0)
                        | Some currentScene \<Rightarrow>
                            (case script env of
                               Inl msg \<Rightarrow> (Inl msg, duringScript env s0)
                             | Inr t \<Rightarrow> (Inr t, (duringScript env s0)\<lparr>voiceText := t\<rparr>)))
                  else (Inr (voiceText c), s0)) of
              (Inl msg, s1) \<Rightarrow> (reportAudioError msg s1)\<lparr>isGeneratingAudio := False\<rparr>
            | (Inr textToSpeak, s1) \<Rightarrow>
                if blank textToSpeak then s1\<lparr>isGeneratingAudio := False\<rparr>
                else
                  (case speech env of
                     Inl msg \<Rightarrow> (reportAudioError msg (duringSpeech env s1))\<lparr>isGeneratingAudio := False\<rparr>
                   | Inr audio \<Rightarrow>
                       (let s3 = voiceoverAttached sceneIndex audio textToSpeak (duringSpeech env s1);
                            s5 = (case sceneAt (timeline c) sceneIndex of
                                    None \<Rightarrow> voiceoverMergeFailed sceneIndex s3
                                  | Some currentVideo \<Rightarrow>
                                      (case mergeVideoAudio env (url currentVideo) audio of
                                         Inr merged \<Rightarrow> voiceoverMerged sceneIndex merged (duringMerge env s3)
                                       | Inl msg \<Rightarrow> voiceoverMergeFailed sceneIndex (duringMerge env s3)))
                        in s5\<lparr>isGeneratingAudio := False\<rparr>))))"

text \<open>
  A scene's merged asset belongs to its current pair of URLs: the merge engine, given
  the scene's \<^verbatim>\<open>url\<close> and \<^verbatim>\<open>audioUrl\<close>, returns that asset.
\<close>

definition mergedFromCurrent :: "(string \<Rightarrow> string \<Rightarrow> string + string) \<Rightarrow> VideoScene \<Rightarrow> bool" where
  "mergedFromCurrent merge sc =
     (case mergedUrl sc of
        None \<Rightarrow> True
      | Some m \<Rightarrow> (case audioUrl sc of None \<Rightarrow> False | Some a \<Rightarrow> merge (url sc) a = Inr m))"

subsection \<open>Playback\<close>

text \<open>
  The two video elements and the audio element, as far as the effect drives them, the
  pending timers, and a virtual clock in milliseconds. \<open>transitionTimer\<close> is the
  time-out of the effect (line 677), by the time it is due; \<open>swapTimers\<close> are the
  800 ms time-outs of \<^verbatim>\<open>handleSceneEnd\<close> (line 604), each with its \<^verbatim>\<open>nextIndex\<close>.
  The elements are mounted for the whole life of the component, so the refs are never
  null when an effect runs. Volumes are left out.
\<close>

record VideoElement =
  v_src :: string
  v_loop :: bool
  v_playing :: bool

record AudioElement =
  a_src :: string
  a_paused :: bool

record Media =
  playerA :: VideoElement
  playerB :: VideoElement
  audioPlayer :: AudioElement
  transitionTimer :: "int option"
  swapTimers :: "(int \<times> nat) list"
  now :: int

definition player :: "PlayerId \<Rightarrow> Media \<Rightarrow> VideoElement" where
  "player p m = (case p of A \<Rightarrow> playerA m | B \<Rightarrow> playerB m)"

definition updPlayer :: "PlayerId \<Rightarrow> (VideoElement \<Rightarrow> VideoElement) \<Rightarrow> Media \<Rightarrow> Media" where
  "updPlayer p f m = (case p of A \<Rightarrow> m\<lparr>playerA := f (playerA m)\<rparr> | B \<Rightarrow> m\<lparr>playerB := f (playerB m)\<rparr>)"

definition otherPlayer :: "PlayerId \<Rightarrow> PlayerId" where
  "otherPlayer p = (case p of A \<Rightarrow> B | B \<Rightarrow> A)"

text \<open>
  \<^verbatim>\<open>(scene.duration || 5) * 1000\<close> (line 676): the delay of the timer, in
  milliseconds. Durations come from the slider and are positive.
\<close>

definition durationMs :: "VideoScene \<Rightarrow> int" where
  "durationMs sc = (if duration sc = 0 then 5 else duration sc) * 1000"

text \<open>
  The effect of lines 628-684 on the render \<open>s\<close>. The clean-up of the run before it
  (\<^verbatim>\<open>clearTimeout(transitionTimer)\<close>) comes first. A \<^verbatim>\<open>play()\<close> that the browser
  blocks is caught and logged; the element is taken as playing.
\<close>

definition playbackEffect :: "State \<Rightarrow> Media \<Rightarrow> Media" where
  "playbackEffect s m =
     (let m0 = m\<lparr>transitionTimer := None\<rparr>
      in case sceneAt (timeline s) (activeSceneIndex s) of
           None \<Rightarrow> m0
         | Some scene \<Rightarrow>
             (let currentUrl = orElse (mergedUrl scene) (url scene);
                  m1 = (if isPlayingAll s
                        then (if currentUrl \<noteq> []
                              then updPlayer (activePlayer s)
                                     (\<lambda>p. p\<lparr>v_src := currentUrl, v_loop := True, v_playing := True\<rparr>) m0
                              else m0)
                        else (if currentUrl \<noteq> []
                              then updPlayer A (\<lambda>p. p\<lparr>v_src := currentUrl, v_loop := isLooping s\<rparr>) m0
                              else m0));
                  isMergedPlaying = truthy (mergedUrl scene);
                  m2 = (if truthy (audioUrl scene) \<and> \<not> isMergedPlaying
                        then m1\<lparr>audioPlayer := (audioPlayer m1)
                                  \<lparr>a_src := orElse (audioUrl scene) [],
                                   a_paused := (if isPlayingAll s then False else a_paused (audioPlayer m1))\<rparr>\<rparr>
                        else m1\<lparr>audioPlayer := (audioPlayer m1)\<lparr>a_paused := True\<rparr>\<rparr>)
              in if isPlayingAll s
                 then m2\<lparr>transitionTimer := Some (now m2 + durationMs scene)\<rparr>
                 else m2))"

text \<open>
  The values the effect depends on (its dependency array, without the volumes): it runs
  again after a render in which one of them has changed. \<^verbatim>\<open>handleSceneEnd\<close> is
  rebuilt exactly when one of these changes.
\<close>

definition effectDeps :: "State \<Rightarrow> nat \<times> PlayerId \<times> bool \<times> VideoScene list \<times> bool" where
  "effectDeps s = (activeSceneIndex s, activePlayer s, isPlayingAll s, timeline s, isLooping s)"

text \<open>
  The render after a state update that did not call \<^verbatim>\<open>setTimeline\<close>: the timeline is
  the same array before and after, and the other dependencies are compared as React
  compares them.
\<close>

definition rerender :: "State \<Rightarrow> State \<Rightarrow> Media \<Rightarrow> Media" where
  "rerender old new m = (if effectDeps old \<noteq> effectDeps new then playbackEffect new m else m)"

text \<open>
  The render after a state update that called \<^verbatim>\<open>setTimeline\<close>: every updater of the
  component builds a new array, React compares the dependency by identity, and the
  effect runs again whether or not the scenes changed.
\<close>

definition rerenderAfterSetTimeline :: "State \<Rightarrow> Media \<Rightarrow> Media" where
  "rerenderAfterSetTimeline new m = playbackEffect new m"

text \<open>\<^verbatim>\<open>handlePlayAll\<close> (lines 587-593).\<close>

definition handlePlayAll :: "State \<Rightarrow> State" where
  "handlePlayAll s =
     (if length (timeline s) = 0 then s
      else s\<lparr>isPlayingAll := True, activeSceneIndex := 0, activePlayer := A, isTransitioning := False\<rparr>)"

text \<open>The click on a scene card (lines 1086-1091): leaves movie mode.\<close>

definition selectScene :: "nat \<Rightarrow> State \<Rightarrow> State" where
  "selectScene idx s =
     s\<lparr>isPlayingAll := False, activeSceneIndex := idx, activePlayer := A, isTransitioning := False\<rparr>"

text \<open>
  \<^verbatim>\<open>handleSceneEnd\<close> (lines 596-626) at virtual time \<^verbatim>\<open>now\<close>: the new state and the
  media, where a transition other than \<open>cut\<close> leaves an 800 ms time-out pending.
\<close>

definition handleSceneEnd :: "State \<times> Media \<Rightarrow> State \<times> Media" where
  "handleSceneEnd w =
     (case w of (s, m) \<Rightarrow>
        if isPlayingAll s then
          (if int (activeSceneIndex s) < int (length (timeline s)) - 1 then
             (let nextIndex = activeSceneIndex s + 1;
                  nextScene = timeline s ! nextIndex;
                  s1 = s\<lparr>transitionType := transition nextScene\<rparr>
              in if transition nextScene \<noteq> cut
                 then (s1\<lparr>isTransitioning := True\<rparr>,
                       m\<lparr>swapTimers := swapTimers m @ [(now m + 800, nextIndex)]\<rparr>)
                 else (s1\<lparr>activeSceneIndex := nextIndex, activePlayer := otherPlayer (activePlayer s1)\<rparr>, m))
           else if isLooping s
           then (s\<lparr>activeSceneIndex := 0, activePlayer := otherPlayer (activePlayer s)\<rparr>, m)
           else (s\<lparr>isPlayingAll := False, isTransitioning := False\<rparr>, m))
        else if isLooping s
        then (s, updPlayer (activePlayer s) (\<lambda>p. p\<lparr>v_playing := True\<rparr>) m)
        else (s, m))"

text \<open>
  The native end-of-media event of a video element (lines 1013 and 1019):
  \<^verbatim>\<open>!isPlayingAll && handleSceneEnd()\<close>.
\<close>

definition onEnded :: "State \<times> Media \<Rightarrow> State \<times> Media" where
  "onEnded w = (if \<not> isPlayingAll (fst w) then handleSceneEnd w else w)"

text \<open>What an observer of the player sees, with the virtual time of each change.\<close>

datatype PlaybackEvent = Advanced nat | Stopped

definition observe :: "int \<Rightarrow> State \<Rightarrow> State \<Rightarrow> (int \<times> PlaybackEvent) list" where
  "observe t old new =
     (if activeSceneIndex new \<noteq> activeSceneIndex old then [(t, Advanced (activeSceneIndex new))] else [])
     @ (if isPlayingAll old \<and> \<not> isPlayingAll new then [(t, Stopped)] else [])"

text \<open>
  The effect's time-out fires at its due time \<open>t\<close>: \<^verbatim>\<open>handleSceneEnd\<close> runs, the
  component renders again, and the effect runs if one of its dependencies changed.
\<close>

definition fireDuration ::
  "int \<Rightarrow> State \<times> Media \<times> (int \<times> PlaybackEvent) list \<Rightarrow> State \<times> Media \<times> (int \<times> PlaybackEvent) list" where
  "fireDuration t w =
     (case w of (s, m, log) \<Rightarrow>
        (case handleSceneEnd (s, m\<lparr>now := t, transitionTimer := None\<rparr>) of
           (s', m') \<Rightarrow> (s', rerender s s' m', log @ observe t s s')))"

text \<open>
  An 800 ms time-out of \<^verbatim>\<open>handleSceneEnd\<close> fires (lines 605-607): the three state
  updaters run on the live state, then the render and the effect.
\<close>

definition fireSwap ::
  "int \<Rightarrow> nat \<Rightarrow> (int \<times> nat) list \<Rightarrow> State \<times> Media \<times> (int \<times> PlaybackEvent) list
     \<Rightarrow> State \<times> Media \<times> (int \<times> PlaybackEvent) list" where
  "fireSwap t nextIndex rest w =
     (case w of (s, m, log) \<Rightarrow>
        (let s' = s\<lparr>activeSceneIndex := nextIndex, activePlayer := otherPlayer (activePlayer s),
                     isTransitioning := False\<rparr>
         in (s', rerender s s' (m\<lparr>now := t, swapTimers := rest\<rparr>), log @ observe t s s')))"

text \<open>The next timer to fire, if one is pending; the older time-out first on a tie.\<close>

definition step ::
  "State \<times> Media \<times> (int \<times> PlaybackEvent) list \<Rightarrow> (State \<times> Media \<times> (int \<times> PlaybackEvent) list) option" where
  "step w =
     (case w of (s, m, log) \<Rightarrow>
        (case (transitionTimer m, swapTimers m) of
           (None, []) \<Rightarrow> None
         | (Some t, []) \<Rightarrow> Some (fireDuration t w)
         | (None, (t', n) # rest) \<Rightarrow> Some (fireSwap t' n rest w)
         | (Some t, (t', n) # rest) \<Rightarrow>
             Some (if t' \<le> t then fireSwap t' n rest w else fireDuration t w)))"

text \<open>The player left alone for at most \<open>n\<close> timer firings.\<close>

fun run :: "nat \<Rightarrow> State \<times> Media \<times> (int \<times> PlaybackEvent) list \<Rightarrow> State \<times> Media \<times> (int \<times> PlaybackEvent) list" where
  "run 0 w = w"
| "run (Suc n) w = (case step w of None \<Rightarrow> w | Some w' \<Rightarrow> run n w')"

text \<open>Pressing Play Movie at virtual time \<open>now m\<close>: the handler, the render, the effect.\<close>

definition playMovie :: "State \<Rightarrow> Media \<Rightarrow> State \<times> Media \<times> (int \<times> PlaybackEvent) list" where
  "playMovie s m = (handlePlayAll s, rerender s (handlePlayAll s) m, [])"

text \<open>
  Whenever the active scene has a merged asset, the separate audio element is paused.
\<close>

definition audioSilencedWhenMerged :: "State \<Rightarrow> Media \<Rightarrow> bool" where
  "audioSilencedWhenMerged s m =
     (case sceneAt (timeline s) (activeSceneIndex s) of
        None \<Rightarrow> True
      | Some scene \<Rightarrow> \<not> truthy (mergedUrl scene) \<or> a_paused (audioPlayer m))"

text \<open>The 800 ms window of a transition other than \<open>cut\<close>.\<close>

definition transitionWindow :: "VideoScene \<Rightarrow> int" where
  "transitionWindow sc = (if transition sc = cut then 0 else 800)"

subsection \<open>Scenes appended in sequence\<close>

text \<open>
  Successful generations one after the other. Each is given with the render its
  \<^verbatim>\<open>executeGeneration\<close> closes over, its chain flag, the \<^verbatim>\<open>url\<close> and \<^verbatim>\<open>asset\<close> the
  generator returns, and the reading of \<^verbatim>\<open>Date.now()\<close> when the scene is built.
\<close>

fun generateScenes ::
  "(string \<Rightarrow> string option) \<Rightarrow> (State \<times> bool \<times> string \<times> string \<times> int) list \<Rightarrow> State \<Rightarrow> State" where
  "generateScenes js [] s = s"
| "generateScenes js ((c, isChain, u, a, t) # rest) s =
     generateScenes js rest (fst (snd (executeGeneration js c isChain (GenerateReturns u a) t s)))"

text \<open>The generation is not refused before the request (line 452).\<close>

definition promptAccepted :: "State \<times> bool \<times> string \<times> string \<times> int \<Rightarrow> bool" where
  "promptAccepted g = (case g of (c, isChain, u, a, t) \<Rightarrow> \<not> isl (enhancedPrompt c isChain))"

definition clockOf :: "State \<times> bool \<times> string \<times> string \<times> int \<Rightarrow> int" where
  "clockOf g = (case g of (c, isChain, u, a, t) \<Rightarrow> t)"

subsection \<open>Reading a run\<close>

fun isGenerateCall :: "Event \<Rightarrow> bool" where
  "isGenerateCall (GenerateCall p) = True"
| "isGenerateCall e = False"

text \<open>The number of requests made to the generator.\<close>

definition generateCalls :: "Event list \<Rightarrow> nat" where
  "generateCalls evs = length (filter isGenerateCall evs)"

text \<open>
  Every request but the first comes after a pause of 5000 ms that follows the request
  before it. \<open>waited\<close> says whether the next request may be made at once.
\<close>

fun throttledFrom :: "bool \<Rightarrow> Event list \<Rightarrow> bool" where
  "throttledFrom waited [] = True"
| "throttledFrom waited (GenerateCall p # es) = (waited \<and> throttledFrom False es)"
| "throttledFrom waited (Throttle d # es) = throttledFrom (waited \<or> d = 5000) es"
| "throttledFrom waited (e # es) = throttledFrom waited es"

text \<open>Nothing happens after a failed generation.\<close>

definition haltsOnFailure :: "Event list \<Rightarrow> bool" where
  "haltsOnFailure evs = (GenerationFailed \<notin> set (butlast evs))"

fun isThrottle :: "Event \<Rightarrow> bool" where
  "isThrottle (Throttle d) = True"
| "isThrottle e = False"

text \<open>The run does not end in a pause.\<close>

definition endsWithoutPause :: "Event list \<Rightarrow> bool" where
  "endsWithoutPause evs = (case rev evs of [] \<Rightarrow> True | e # es \<Rightarrow> \<not> isThrottle e)"

subsection \<open>Example states\<close>

text \<open>A timeline of one generated scene of eight seconds, active and not playing.\<close>

definition demoState :: State where
  "demoState = initialState\<lparr>timeline := [demoScene ''1700000000000'' ''blob:v1'' 8]\<rparr>"

text \<open>No error message is JSON.\<close>

definition noJson :: "string \<Rightarrow> string option" where
  "noJson m = None"

text \<open>The fresh component with a prompt typed in and auto-generation of three scenes on.\<close>

definition autoState :: State where
  "autoState = initialState\<lparr>prompt_input := ''a fox runs'', isAutoGenerating := True\<rparr>"


text \<open>A generator that always succeeds, and a user who presses Stop during the second request.\<close>

definition stopInSecond :: RunEnv where
  "stopInSecond = \<lparr> gen = (\<lambda>k. GenerateReturns ''blob:v'' ''asset''),
     clock = (\<lambda>k. 1000 + 6000 * int k),
     stopDuringGeneration = (\<lambda>k. k = 1), stopDuringDelay = (\<lambda>k. False) \<rparr>"

text \<open>The live state of that run after the first pass through the loop.\<close>

definition afterFirstPass :: State where
  "afterFirstPass = fst (snd (loopBody noJson autoState stopInSecond 0
                                (autoState\<lparr>stopAutoGenerationRef := False\<rparr>)))"

text \<open>
  The three generations of one auto-generation run started on the one-scene timeline,
  six seconds apart.
\<close>

definition threeGenerations :: "(State \<times> bool \<times> string \<times> string \<times> int) list" where
  "threeGenerations = [(demoState, True, ''blob:v2'', ''asset'', 1000),
                       (demoState, True, ''blob:v3'', ''asset'', 7000),
                       (demoState, True, ''blob:v4'', ''asset'', 13000)]"

text \<open>
  Two generations started from the same render of the empty timeline, whose scenes are
  built in the same millisecond.
\<close>

definition sameMillisecond :: "(State \<times> bool \<times> string \<times> string \<times> int) list" where
  "sameMillisecond = [(autoState, False, ''blob:v1'', ''asset'', 1000),
                      (autoState, False, ''blob:v2'', ''asset'', 1000)]"

text \<open>A merge engine that names its result after the two URLs it was given.\<close>

definition pairMerge :: "string \<Rightarrow> string \<Rightarrow> string + string" where
  "pairMerge v a = Inr (''merged:'' @ v @ ''+'' @ a)"

text \<open>The same engine, when the fetch of the audio \<^verbatim>\<open>blob:a1\<close> is rejected.\<close>

definition rejectingMerge :: "string \<Rightarrow> string \<Rightarrow> string + string" where
  "rejectingMerge v a = (if a = ''blob:a1'' then Inl ''Failed to fetch'' else pairMerge v a)"

text \<open>
  Two manual voice-overs for the same scene, with nothing else going on: the first is
  merged, the merge of the second fails.
\<close>

definition firstVoiceover :: VoiceEnv where
  "firstVoiceover = \<lparr> script = Inr [], speech = Inr ''blob:a0'', mergeVideoAudio = rejectingMerge,
     duringScript = (\<lambda>s. s), duringSpeech = (\<lambda>s. s), duringMerge = (\<lambda>s. s) \<rparr>"

definition secondVoiceover :: VoiceEnv where
  "secondVoiceover = \<lparr> script = Inr [], speech = Inr ''blob:a1'', mergeVideoAudio = rejectingMerge,
     duringScript = (\<lambda>s. s), duringSpeech = (\<lambda>s. s), duringMerge = (\<lambda>s. s) \<rparr>"

text \<open>The one-scene timeline after the first voice-over.\<close>

definition narratedState :: State where
  "narratedState = handleGenerateVoiceover False firstVoiceover (demoState\<lparr>voiceText := ''old words''\<rparr>)"

text \<open>
  The user clears the timeline, confirms, types a prompt and generates a scene, which
  is built at clock reading 9000.
\<close>

definition clearAndGenerate :: "State \<Rightarrow> State" where
  "clearAndGenerate s =
     (let c = (clearTimeline True s)\<lparr>prompt_input := ''a cat''\<rparr>
      in fst (snd (executeGeneration noJson c False (GenerateReturns ''blob:v9'' ''asset9'') 9000 c)))"

text \<open>A voice-over during whose speech request the user does that.\<close>

definition overtaken :: VoiceEnv where
  "overtaken = \<lparr> script = Inr [], speech = Inr ''blob:a1'', mergeVideoAudio = pairMerge,
     duringScript = (\<lambda>s. s), duringSpeech = clearAndGenerate, duringMerge = (\<lambda>s. s) \<rparr>"

text \<open>The media elements and timers of the freshly mounted component, at time 0.\<close>

definition idleMedia :: Media where
  "idleMedia = \<lparr> playerA = \<lparr>v_src = [], v_loop = False, v_playing = False\<rparr>,
     playerB = \<lparr>v_src = [], v_loop = False, v_playing = False\<rparr>,
     audioPlayer = \<lparr>a_src = [], a_paused = True\<rparr>,
     transitionTimer = None, swapTimers = [], now = 0 \<rparr>"

text \<open>A timeline of a scene of two seconds and one of three, entered by a fade.\<close>

definition twoSceneState :: State where
  "twoSceneState = initialState\<lparr>timeline :=
     [demoScene ''1000'' ''blob:v1'' 2, (demoScene ''7000'' ''blob:v2'' 3)\<lparr>transition := fade\<rparr>]\<rparr>"

text \<open>
  A timeline of two scenes with voice-overs: the first is merged, the merge of the second
  failed. The second is entered by a cut.
\<close>

definition mergedFirst :: VideoScene where
  "mergedFirst = (demoScene ''1000'' ''blob:v1'' 2)
     \<lparr>audioUrl := Some ''blob:a1'', audioScript := Some ''one'',
      mergedUrl := Some ''blob:m1'', isMerging := Some False\<rparr>"

definition audioOnlySecond :: VideoScene where
  "audioOnlySecond = (demoScene ''7000'' ''blob:v2'' 3)
     \<lparr>audioUrl := Some ''blob:a2'', audioScript := Some ''two'', isMerging := Some False\<rparr>"

definition mixedState :: State where
  "mixedState = initialState\<lparr>timeline := [mergedFirst, audioOnlySecond]\<rparr>"

section \<open>Properties\<close>

subsection \<open>Patches\<close>

lemma length_patchAt: "length (patchAt i f xs) = length xs"
  by (simp add: patchAt_def)

lemma nth_patchAt:
  "k < length xs \<Longrightarrow> patchAt i f xs ! k = (if k = i then f (xs ! k) else xs ! k)"
  by (simp add: patchAt_def nth_enumerate_eq)

lemma patchAt_update:
  "patchAt i f xs = (if i < length xs then xs[i := f (xs ! i)] else xs)"
  by (rule nth_equalityI) (auto simp: length_patchAt nth_patchAt nth_list_update)

lemma length_patchId: "length (patchId i f xs) = length xs"
  by (simp add: patchId_def)

subsection \<open>Generating one scene\<close>

lemma reportGenerationError_timeline [simp]:
  "timeline (reportGenerationError js msg s) = timeline s"
  by (simp add: reportGenerationError_def Let_def)

lemma reportGenerationError_stop [simp]:
  "stopAutoGenerationRef (reportGenerationError js msg s) = stopAutoGenerationRef s"
  by (simp add: reportGenerationError_def Let_def)

lemma executeGeneration_cases:
  "executeGeneration js c isChain out t s = (ok, s', ev) \<Longrightarrow>
   stopAutoGenerationRef s' = stopAutoGenerationRef s \<and>
   (if ok
    then (\<exists>p u a. enhancedPrompt c isChain = Inr p \<and> out = GenerateReturns u a \<and>
           timeline s' = timeline s @ [newScene c p u a t] \<and>
           activeSceneIndex s' = length (timeline s) \<and>
           ev = [GenerateCall p, SceneAppended (numberToString t)]
                @ (if isAutoAudio c then [NarrationSpawned (numberToString t)] else []))
    else timeline s' = timeline s \<and>
         (ev = [GenerationFailed] \<or> (\<exists>p. ev = [GenerateCall p, GenerationFailed])))"
  by (auto simp: executeGeneration_def Let_def appendScene_def newScene_def
      split: GenOutcome.splits sum.splits if_splits)

lemma executeGeneration_ok:
  "enhancedPrompt c isChain = Inr p \<Longrightarrow>
   executeGeneration js c isChain (GenerateReturns u a) t s =
     (True,
      s\<lparr>error := None, isApiKeyError := False, isSafetyError := False, isQuotaError := False,
        isGenerating := False, timeline := timeline s @ [newScene c p u a t],
        activeSceneIndex := length (timeline s)\<rparr>,
      [GenerateCall p, SceneAppended (numberToString t)]
        @ (if isAutoAudio c then [NarrationSpawned (numberToString t)] else []))"
  by (simp add: executeGeneration_def Let_def appendScene_def newScene_def)


lemma reportGenerationError_auto [simp]:
  "isAutoGenerating (reportGenerationError js msg s) = isAutoGenerating s"
  by (simp add: reportGenerationError_def Let_def)


subsection \<open>The sequencer loop\<close>

lemma userStop_timeline [simp]: "timeline (userStop b s) = timeline s"
  by (simp add: userStop_def handleStopAuto_def)

lemma userStop_stop [simp]: "stopAutoGenerationRef (userStop b s) = (b \<or> stopAutoGenerationRef s)"
  by (simp add: userStop_def handleStopAuto_def)

lemma loopBody_break:
  "loopBody js c env count s = (None, s', ev) \<Longrightarrow>
   timeline s' = timeline s \<and>
   (ev = [GenerationFailed] \<or> (\<exists>p. ev = [GenerateCall p, GenerationFailed]))"
proof -
  assume lb: "loopBody js c env count s = (None, s', ev)"
  obtain ok s1 ev1 where eg:
    "executeGeneration js c True (gen env count) (clock env count) s = (ok, s1, ev1)"
    by (metis prod_cases3)
  from lb eg have "\<not> ok" and "s' = userStop (stopDuringGeneration env count) s1" and "ev = ev1"
    by (auto simp: loopBody_def Let_def split: if_splits)
  with executeGeneration_cases[OF eg] show ?thesis by simp
qed

lemma loopBody_continue:
  "loopBody js c env count s = (Some k, s', ev) \<Longrightarrow>
   (\<exists>p u a. enhancedPrompt c True = Inr p \<and> gen env count = GenerateReturns u a \<and>
      timeline s' = timeline s @ [newScene c p u a (clock env count)] \<and>
      (\<exists>thr. ev = [GenerateCall p, SceneAppended (numberToString (clock env count))]
            @ (if isAutoAudio c then [NarrationSpawned (numberToString (clock env count))] else [])
            @ thr \<and>
         (thr = [] \<or> thr = [Throttle 5000]) \<and>
         (k \<longrightarrow> thr = [Throttle 5000]) \<and>
         (thr = [Throttle 5000] \<and> \<not> stopDuringDelay env count \<longrightarrow> k) \<and>
         (k \<longrightarrow> \<not> stopAutoGenerationRef s' \<and> int (count + 1) < autoGenCount c)))"
proof -
  assume lb: "loopBody js c env count s = (Some k, s', ev)"
  obtain ok s1 ev1 where eg:
    "executeGeneration js c True (gen env count) (clock env count) s = (ok, s1, ev1)"
    by (metis prod_cases3)
  from lb eg have ok: ok
    by (auto simp: loopBody_def Let_def split: if_splits)
  from executeGeneration_cases[OF eg] ok obtain p u a where
    p: "enhancedPrompt c True = Inr p" "gen env count = GenerateReturns u a"
       "timeline s1 = timeline s @ [newScene c p u a (clock env count)]"
       "ev1 = [GenerateCall p, SceneAppended (numberToString (clock env count))]
                @ (if isAutoAudio c then [NarrationSpawned (numberToString (clock env count))] else [])"
    by auto
  from lb eg ok p show ?thesis
    by (auto simp: loopBody_def Let_def split: if_splits)
qed

lemma autoLoop_stopped:
  "\<not> keepGoing \<or> stopAutoGenerationRef s \<or> \<not> int count < autoGenCount c \<Longrightarrow>
   autoLoop js c env count keepGoing s = (s, [])"
  by (subst autoLoop.simps) auto

lemma autoLoop_break:
  "keepGoing \<Longrightarrow> \<not> stopAutoGenerationRef s \<Longrightarrow> int count < autoGenCount c \<Longrightarrow>
   loopBody js c env count s = (None, s2, ev) \<Longrightarrow>
   autoLoop js c env count keepGoing s = (s2, ev)"
  by (subst autoLoop.simps) simp

lemma autoLoop_continue:
  "keepGoing \<Longrightarrow> \<not> stopAutoGenerationRef s \<Longrightarrow> int count < autoGenCount c \<Longrightarrow>
   loopBody js c env count s = (Some k, s3, ev) \<Longrightarrow>
   autoLoop js c env (count + 1) k s3 = (s4, ev3) \<Longrightarrow>
   autoLoop js c env count keepGoing s = (s4, ev @ ev3)"
  by (subst autoLoop.simps) simp

text \<open>A rule for the loop: what every pass keeps holds of the run.\<close>

lemma autoLoop_rule:
  assumes stop: "\<And>count keepGoing s. P count s s []"
    and brk: "\<And>count s s2 ev. \<not> stopAutoGenerationRef s \<Longrightarrow> int count < autoGenCount c \<Longrightarrow>
        loopBody js c env count s = (None, s2, ev) \<Longrightarrow> P count s s2 ev"
    and cont: "\<And>count s k s3 ev s4 ev3. \<not> stopAutoGenerationRef s \<Longrightarrow> int count < autoGenCount c \<Longrightarrow>
        loopBody js c env count s = (Some k, s3, ev) \<Longrightarrow>
        autoLoop js c env (count + 1) k s3 = (s4, ev3) \<Longrightarrow>
        P (count + 1) s3 s4 ev3 \<Longrightarrow> P count s s4 (ev @ ev3)"
  shows "autoLoop js c env count keepGoing s = (s', evs) \<Longrightarrow> P count s s' evs"
proof (induction "nat (autoGenCount c - int count)" arbitrary: count keepGoing s s' evs)
  case 0
  then have "autoLoop js c env count keepGoing s = (s, [])"
    by (intro autoLoop_stopped) simp
  with 0 stop show ?case by simp
next
  case (Suc n)
  show ?case
  proof (cases "keepGoing \<and> \<not> stopAutoGenerationRef s \<and> int count < autoGenCount c")
    case False
    then have "autoLoop js c env count keepGoing s = (s, [])"
      by (intro autoLoop_stopped) auto
    with Suc.prems stop show ?thesis by simp
  next
    case True
    obtain r s2 ev where lb: "loopBody js c env count s = (r, s2, ev)"
      by (metis prod_cases3)
    show ?thesis
    proof (cases r)
      case None
      with True lb have "autoLoop js c env count keepGoing s = (s2, ev)"
        by (intro autoLoop_break) auto
      with Suc.prems brk[of s count s2 ev] True lb None show ?thesis by simp
    next
      case (Some k)
      obtain s4 ev3 where rec: "autoLoop js c env (count + 1) k s2 = (s4, ev3)"
        by (metis prod.exhaust)
      from Suc.hyps(2) have "n = nat (autoGenCount c - int (count + 1))" by simp
      from Suc.hyps(1)[OF this rec] have ih: "P (count + 1) s2 s4 ev3" .
      from True lb Some rec have "autoLoop js c env count keepGoing s = (s4, ev @ ev3)"
        by (intro autoLoop_continue) auto
      with Suc.prems cont[of s count k s2 ev s4 ev3] True lb Some rec ih show ?thesis by simp
    qed
  qed
qed

lemma autoLoop_prefix:
  "autoLoop js c env count keepGoing s = (s', evs) \<Longrightarrow> prefix (timeline s) (timeline s')"
proof (erule autoLoop_rule[where P = "\<lambda>count s s' evs. prefix (timeline s) (timeline s')", rotated -1])
  show "\<And>s. prefix (timeline s) (timeline s)" by simp
next
  fix count s s2 ev
  assume "loopBody js c env count s = (None, s2, ev)"
  from loopBody_break[OF this] show "prefix (timeline s) (timeline s2)" by simp
next
  fix count s k s3 ev s4 ev3
  assume lb: "loopBody js c env count s = (Some k, s3, ev)"
    and rec: "autoLoop js c env (count + 1) k s3 = (s4, ev3)"
    and ih: "prefix (timeline s3) (timeline s4)"
  from loopBody_continue[OF lb] obtain x where "timeline s3 = timeline s @ [x]" by auto
  then have "prefix (timeline s) (timeline s3)" by simp
  then show "prefix (timeline s) (timeline s4)" using ih by (rule prefix_order.trans)
qed

lemma autoLoop_halts:
  "autoLoop js c env count keepGoing s = (s', evs) \<Longrightarrow> haltsOnFailure evs"
proof (erule autoLoop_rule[where P = "\<lambda>count s s' evs. haltsOnFailure evs", rotated -1])
  show "haltsOnFailure []" by (simp add: haltsOnFailure_def)
next
  fix count s s2 ev
  assume "loopBody js c env count s = (None, s2, ev)"
  from loopBody_break[OF this] show "haltsOnFailure ev" by (auto simp: haltsOnFailure_def)
next
  fix count s k s3 ev s4 ev3
  assume "loopBody js c env count s = (Some k, s3, ev)" and "haltsOnFailure ev3"
    and "autoLoop js c env (count + 1) k s3 = (s4, ev3)"
  with loopBody_continue[of js c env count s k s3 ev] have "GenerationFailed \<notin> set ev"
    by (auto split: if_splits)
  with \<open>haltsOnFailure ev3\<close> show "haltsOnFailure (ev @ ev3)"
    by (auto simp: haltsOnFailure_def butlast_append dest: in_set_butlastD)
qed

lemma autoLoop_throttled:
  "autoLoop js c env count keepGoing s = (s', evs) \<Longrightarrow> throttledFrom True evs"
proof (erule autoLoop_rule[where P = "\<lambda>count s s' evs. throttledFrom True evs", rotated -1])
  show "throttledFrom True []" by simp
next
  fix count s s2 ev
  assume "loopBody js c env count s = (None, s2, ev)"
  from loopBody_break[OF this] show "throttledFrom True ev" by auto
next
  fix count s k s3 ev s4 ev3
  assume lb: "loopBody js c env count s = (Some k, s3, ev)" and ih: "throttledFrom True ev3"
    and rec: "autoLoop js c env (count + 1) k s3 = (s4, ev3)"
  have "\<not> k \<Longrightarrow> ev3 = []"
    using rec autoLoop_stopped[of k s3 "count + 1" c js env] by simp
  with loopBody_continue[OF lb] ih show "throttledFrom True (ev @ ev3)"
    by (cases k) auto
qed

lemma autoLoop_entered:
  "keepGoing \<Longrightarrow> \<not> stopAutoGenerationRef s \<Longrightarrow> int count < autoGenCount c \<Longrightarrow>
   autoLoop js c env count keepGoing s = (s', evs) \<Longrightarrow> evs \<noteq> []"
proof -
  assume a: "keepGoing" "\<not> stopAutoGenerationRef s" "int count < autoGenCount c"
    and r: "autoLoop js c env count keepGoing s = (s', evs)"
  obtain b s2 ev where lb: "loopBody js c env count s = (b, s2, ev)"
    by (metis prod_cases3)
  show ?thesis
  proof (cases b)
    case None
    with a lb r autoLoop_break[of keepGoing s count c js env s2 ev] loopBody_break[of js c env count s s2 ev]
    show ?thesis by auto
  next
    case (Some k)
    obtain s4 ev3 where rec: "autoLoop js c env (count + 1) k s2 = (s4, ev3)"
      by (metis prod.exhaust)
    with Some a lb r autoLoop_continue[of keepGoing s count c js env k s2 ev s4 ev3]
      loopBody_continue[of js c env count s k s2 ev]
    show ?thesis by auto
  qed
qed

lemma autoLoop_no_trailing_pause:
  assumes nodelay: "\<And>k. \<not> stopDuringDelay env k"
  shows "autoLoop js c env count keepGoing s = (s', evs) \<Longrightarrow> endsWithoutPause evs"
proof (erule autoLoop_rule[where P = "\<lambda>count s s' evs. endsWithoutPause evs", rotated -1])
  show "endsWithoutPause []" by (simp add: endsWithoutPause_def)
next
  fix count s s2 ev
  assume "loopBody js c env count s = (None, s2, ev)"
  from loopBody_break[OF this] show "endsWithoutPause ev" by (auto simp: endsWithoutPause_def)
next
  fix count s k s3 ev s4 ev3
  assume lb: "loopBody js c env count s = (Some k, s3, ev)" and ih: "endsWithoutPause ev3"
    and rec: "autoLoop js c env (count + 1) k s3 = (s4, ev3)"
  note facts = loopBody_continue[OF lb]
  show "endsWithoutPause (ev @ ev3)"
  proof (cases k)
    case True
    with facts rec have "ev3 \<noteq> []"
      using autoLoop_entered[of k s3 "count + 1" c js env s4 ev3] by auto
    with ih show ?thesis
      by (cases ev3 rule: rev_cases) (auto simp: endsWithoutPause_def)
  next
    case False
    then have "ev3 = []"
      using rec autoLoop_stopped[of k s3 "count + 1" c js env] by simp
    with facts False nodelay show ?thesis
      by (auto simp: endsWithoutPause_def)
  qed
qed

lemma handleStartGeneration_general:
  "handleStartGeneration js env s = (s', evs) \<Longrightarrow>
   prefix (timeline s) (timeline s') \<and> haltsOnFailure evs \<and> throttledFrom True evs"
proof -
  assume h: "handleStartGeneration js env s = (s', evs)"
  show ?thesis
  proof (cases "coolDown s > 0")
    case True
    with h show ?thesis by (auto simp: handleStartGeneration_def haltsOnFailure_def)
  next
    case cool: False
    show ?thesis
    proof (cases "isAutoGenerating s")
      case False
      obtain ok s2 ev where eg: "executeGeneration js s False (gen env 0) (clock env 0)
          (s\<lparr>stopAutoGenerationRef := False\<rparr>) = (ok, s2, ev)"
        by (metis prod_cases3)
      with h cool False have "s' = userStop (stopDuringGeneration env 0) s2" "evs = ev"
        by (auto simp: handleStartGeneration_def Let_def)
      with executeGeneration_cases[OF eg] show ?thesis
        by (cases ok) (auto simp: haltsOnFailure_def split: if_splits)
    next
      case True
      obtain s2 ev where al: "autoLoop js s env 0 True (s\<lparr>stopAutoGenerationRef := False\<rparr>) = (s2, ev)"
        by (metis prod.exhaust)
      with h cool True have "s' = s2\<lparr>isAutoGenerating := False\<rparr>" "evs = ev"
        by (auto simp: handleStartGeneration_def Let_def)
      with autoLoop_prefix[OF al] autoLoop_halts[OF al] autoLoop_throttled[OF al]
      show ?thesis by simp
    qed
  qed
qed


subsection \<open>Scene ids\<close>

lemma digitChar_inj: "a < 10 \<Longrightarrow> b < 10 \<Longrightarrow> digitChar a = digitChar b \<Longrightarrow> a = b"
proof -
  assume "a < 10" "b < 10" "digitChar a = digitChar b"
  moreover have "a < 10 \<Longrightarrow> a \<in> {0,1,2,3,4,5,6,7,8,9}" for a :: nat by auto
  ultimately have "a \<in> {0,1,2,3,4,5,6,7,8,9}" "b \<in> {0,1,2,3,4,5,6,7,8,9}" by blast+
  with \<open>digitChar a = digitChar b\<close> show ?thesis
    by (auto simp: digitChar_def)
qed

lemma digitChar_not_minus: "d < 10 \<Longrightarrow> digitChar d \<noteq> CHR ''-''"
proof -
  assume "d < 10"
  then have "d \<in> {0,1,2,3,4,5,6,7,8,9}" by auto
  then show ?thesis by (auto simp: digitChar_def)
qed

lemma natToString_nonempty: "natToString n \<noteq> []"
  by (subst natToString.simps) auto

lemma natToString_length: "(length (natToString n) = Suc 0) = (n < 10)"
  using natToString_nonempty[of "n div 10"]
  by (subst natToString.simps) auto

lemma natToString_inj: "natToString m = natToString n \<Longrightarrow> m = n"
proof (induction m arbitrary: n rule: natToString.induct)
  case (1 m)
  show ?case
  proof (cases "m < 10")
    case True
    then have "length (natToString m) = Suc 0" by (simp add: natToString_length)
    with 1 have n: "n < 10" by (simp add: natToString_length)
    from 1(2) True n have "digitChar m = digitChar n"
      by (simp add: natToString.simps[of m] natToString.simps[of n])
    with True n show ?thesis by (rule digitChar_inj)
  next
    case False
    then have "length (natToString m) \<noteq> Suc 0" by (simp add: natToString_length)
    with 1 have n: "\<not> n < 10" by (simp add: natToString_length)
    from 1(2) False n have "natToString (m div 10) = natToString (n div 10)"
      and "digitChar (m mod 10) = digitChar (n mod 10)"
      by (simp_all add: natToString.simps[of m] natToString.simps[of n])
    with 1(1)[OF False] have "m div 10 = n div 10" and "m mod 10 = n mod 10"
      by (auto intro: digitChar_inj)
    then show ?thesis by (metis div_mult_mod_eq)
  qed
qed

lemma natToString_hd: "hd (natToString n) \<noteq> CHR ''-''"
proof (induction n rule: natToString.induct)
  case (1 n)
  show ?case
  proof (cases "n < 10")
    case True
    then show ?thesis by (simp add: natToString.simps[of n] digitChar_not_minus)
  next
    case False
    with 1 show ?thesis
      by (simp add: natToString.simps[of n] natToString_nonempty)
  qed
qed

lemma numberToString_inj: "numberToString a = numberToString b \<Longrightarrow> a = b"
proof -
  assume eq: "numberToString a = numberToString b"
  have neg: "natToString k \<noteq> CHR ''-'' # xs" for k xs
    using natToString_hd[of k] by (cases "natToString k") auto
  show ?thesis
  proof (cases "a < 0"; cases "b < 0")
    assume "a < 0" "b < 0"
    with eq have "nat (- a) = nat (- b)" by (auto simp: numberToString_def dest: natToString_inj)
    with \<open>a < 0\<close> \<open>b < 0\<close> show ?thesis by simp
  next
    assume "a < 0" "\<not> b < 0"
    with eq neg[of "nat b"] show ?thesis by (auto simp: numberToString_def dest: sym)
  next
    assume "\<not> a < 0" "b < 0"
    with eq neg[of "nat a"] show ?thesis by (simp add: numberToString_def)
  next
    assume "\<not> a < 0" "\<not> b < 0"
    with eq have "nat a = nat b" by (auto simp: numberToString_def dest: natToString_inj)
    with \<open>\<not> a < 0\<close> \<open>\<not> b < 0\<close> show ?thesis by simp
  qed
qed

lemma distinct_numberToString: "distinct (map numberToString ts) = distinct ts"
  by (simp add: distinct_map inj_on_def numberToString_inj)

lemma scene_id_newScene [simp]: "scene_id (newScene c p u a t) = numberToString t"
  by (simp add: newScene_def)

lemma generateScenes_timeline:
  "list_all promptAccepted gs \<Longrightarrow>
   \<exists>new. timeline (generateScenes js gs s) = timeline s @ new \<and>
         map scene_id new = map (numberToString \<circ> clockOf) gs \<and>
         (gs \<noteq> [] \<longrightarrow> activeSceneIndex (generateScenes js gs s) = length (timeline s) + length gs - 1)"
proof (induction gs arbitrary: s)
  case Nil
  then show ?case by simp
next
  case (Cons g gs)
  obtain c isChain u a t where g: "g = (c, isChain, u, a, t)" by (cases g) auto
  with Cons.prems obtain p where p: "enhancedPrompt c isChain = Inr p"
    by (cases "enhancedPrompt c isChain") (auto simp: promptAccepted_def)
  define s1 where "s1 = fst (snd (executeGeneration js c isChain (GenerateReturns u a) t s))"
  have s1: "timeline s1 = timeline s @ [newScene c p u a t]" "activeSceneIndex s1 = length (timeline s)"
    by (simp_all add: s1_def executeGeneration_ok[OF p])
  from Cons.prems have "list_all promptAccepted gs" by simp
  from Cons.IH[OF this, of s1] obtain new where new:
    "timeline (generateScenes js gs s1) = timeline s1 @ new"
    "map scene_id new = map (numberToString \<circ> clockOf) gs"
    "gs \<noteq> [] \<longrightarrow> activeSceneIndex (generateScenes js gs s1) = length (timeline s1) + length gs - 1"
    by blast
  have gen: "generateScenes js (g # gs) s = generateScenes js gs s1"
    by (simp add: g s1_def)
  show ?case
  proof (intro exI conjI)
    show "timeline (generateScenes js (g # gs) s) = timeline s @ (newScene c p u a t # new)"
      by (simp add: gen new s1)
    show "map scene_id (newScene c p u a t # new) = map (numberToString \<circ> clockOf) (g # gs)"
      by (simp add: new g clockOf_def)
    show "g # gs \<noteq> [] \<longrightarrow>
          activeSceneIndex (generateScenes js (g # gs) s) = length (timeline s) + length (g # gs) - 1"
      using new(3) s1 unfolding gen by (cases gs) simp_all
  qed
qed

subsection \<open>Runs of the sequencer\<close>


lemma autoState_prompt: "enhancedPrompt autoState True = Inr ''a fox runs''"
  by (simp add: enhancedPrompt_def autoState_def initialState_def Let_def blank_def isWhiteSpace_def truthy_def)


lemma cancel_in_flight:
  assumes "keepGoing" "\<not> stopAutoGenerationRef s" "int count < autoGenCount c"
    and p: "enhancedPrompt c True = Inr p"
    and "gen env count = GenerateReturns u a" "stopDuringGeneration env count"
  shows "timeline (fst (autoLoop js c env count keepGoing s))
           = timeline s @ [newScene c p u a (clock env count)] \<and>
         snd (autoLoop js c env count keepGoing s) =
           [GenerateCall p, SceneAppended (numberToString (clock env count))]
           @ (if isAutoAudio c then [NarrationSpawned (numberToString (clock env count))] else []) \<and>
         stopAutoGenerationRef (fst (autoLoop js c env count keepGoing s))"
proof -
  have "\<exists>s3. loopBody js c env count s = (Some False, s3,
           [GenerateCall p, SceneAppended (numberToString (clock env count))]
           @ (if isAutoAudio c then [NarrationSpawned (numberToString (clock env count))] else []))
         \<and> timeline s3 = timeline s @ [newScene c p u a (clock env count)]
         \<and> stopAutoGenerationRef s3"
    using assms by (simp add: loopBody_def Let_def executeGeneration_ok[OF p])
  then obtain s3 where lb: "loopBody js c env count s = (Some False, s3,
           [GenerateCall p, SceneAppended (numberToString (clock env count))]
           @ (if isAutoAudio c then [NarrationSpawned (numberToString (clock env count))] else []))"
    and s3: "timeline s3 = timeline s @ [newScene c p u a (clock env count)]" "stopAutoGenerationRef s3"
    by blast
  have "autoLoop js c env (count + 1) False s3 = (s3, [])"
    by (rule autoLoop_stopped) simp
  with assms(1-3) lb have "autoLoop js c env count keepGoing s = (s3,
           ([GenerateCall p, SceneAppended (numberToString (clock env count))]
           @ (if isAutoAudio c then [NarrationSpawned (numberToString (clock env count))] else [])) @ [])"
    by (rule autoLoop_continue)
  with s3 show ?thesis by simp
qed

lemma handleStartGeneration_no_trailing_pause:
  assumes nodelay: "\<And>k. \<not> stopDuringDelay env k"
    and h: "handleStartGeneration js env s = (s', evs)"
  shows "endsWithoutPause evs"
proof (cases "coolDown s > 0")
  case True
  with h show ?thesis by (auto simp: handleStartGeneration_def endsWithoutPause_def)
next
  case cool: False
  show ?thesis
  proof (cases "isAutoGenerating s")
    case False
    obtain ok s2 ev where eg: "executeGeneration js s False (gen env 0) (clock env 0)
        (s\<lparr>stopAutoGenerationRef := False\<rparr>) = (ok, s2, ev)"
      by (metis prod_cases3)
    with h cool False have "evs = ev"
      by (auto simp: handleStartGeneration_def Let_def)
    with executeGeneration_cases[OF eg] show ?thesis
      by (cases ok) (auto simp: endsWithoutPause_def split: if_splits)
  next
    case True
    obtain s2 ev where al: "autoLoop js s env 0 True (s\<lparr>stopAutoGenerationRef := False\<rparr>) = (s2, ev)"
      by (metis prod.exhaust)
    with h cool True have "evs = ev"
      by (auto simp: handleStartGeneration_def Let_def)
    with autoLoop_no_trailing_pause[OF nodelay al] show ?thesis by simp
  qed
qed

text \<open>
  C5. In every run, each request to the generator after the first comes after a pause
  of 5000 ms that follows the request before it. When Stop is not pressed during a
  pause, the run does not end in a pause: there is none after the last iteration. The
  Stop flag is read only at the loop test and around the pause: when Stop is pressed
  while a request is in flight and the request succeeds, its scene is appended all the
  same, and no pause and no further request follow.
\<close>

theorem sequencer_throttles:
  "(handleStartGeneration js env s = (s', evs) \<longrightarrow> throttledFrom True evs) \<and>
   ((\<forall>k. \<not> stopDuringDelay env k) \<and> handleStartGeneration js env s = (s', evs)
      \<longrightarrow> endsWithoutPause evs) \<and>
   (keepGoing \<and> \<not> stopAutoGenerationRef sk \<and> int count < autoGenCount c \<and>
    enhancedPrompt c True = Inr p \<and> gen env count = GenerateReturns u a \<and>
    stopDuringGeneration env count \<longrightarrow>
      timeline (fst (autoLoop js c env count keepGoing sk))
        = timeline sk @ [newScene c p u a (clock env count)] \<and>
      generateCalls (snd (autoLoop js c env count keepGoing sk)) = 1 \<and>
      \<not> list_ex isThrottle (snd (autoLoop js c env count keepGoing sk)))"
proof (intro conjI impI)
  assume "handleStartGeneration js env s = (s', evs)"
  from handleStartGeneration_general[OF this] show "throttledFrom True evs" by simp
next
  assume "(\<forall>k. \<not> stopDuringDelay env k) \<and> handleStartGeneration js env s = (s', evs)"
  then show "endsWithoutPause evs"
    using handleStartGeneration_no_trailing_pause[of env js s s' evs] by simp
next
  assume a: "keepGoing \<and> \<not> stopAutoGenerationRef sk \<and> int count < autoGenCount c \<and>
    enhancedPrompt c True = Inr p \<and> gen env count = GenerateReturns u a \<and>
    stopDuringGeneration env count"
  then have c: "timeline (fst (autoLoop js c env count keepGoing sk))
           = timeline sk @ [newScene c p u a (clock env count)] \<and>
         snd (autoLoop js c env count keepGoing sk) =
           [GenerateCall p, SceneAppended (numberToString (clock env count))]
           @ (if isAutoAudio c then [NarrationSpawned (numberToString (clock env count))] else []) \<and>
         stopAutoGenerationRef (fst (autoLoop js c env count keepGoing sk))"
    by (intro cancel_in_flight) simp_all
  then show "timeline (fst (autoLoop js c env count keepGoing sk))
        = timeline sk @ [newScene c p u a (clock env count)]" by simp
  from c show "generateCalls (snd (autoLoop js c env count keepGoing sk)) = 1"
    by (simp add: generateCalls_def)
  from c show "\<not> list_ex isThrottle (snd (autoLoop js c env count keepGoing sk))"
    by simp
qed

lemma afterFirstPass_fields:
  "\<not> stopAutoGenerationRef afterFirstPass"
  "map scene_id (timeline afterFirstPass) = [''1000'']"
proof -
  have e: "gen stopInSecond 0 = GenerateReturns ''blob:v'' ''asset''" "clock stopInSecond 0 = 1000"
    "\<not> stopDuringGeneration stopInSecond 0" "\<not> stopDuringDelay stopInSecond 0"
    by (simp_all add: stopInSecond_def)
  have a: "timeline autoState = []" "\<not> isAutoAudio autoState"
    by (simp_all add: autoState_def initialState_def)
  have n: "numberToString 1000 = ''1000''"
    by (simp add: numberToString_def natToString.simps digitChar_def)
  show "\<not> stopAutoGenerationRef afterFirstPass"
    by (simp add: afterFirstPass_def loopBody_def Let_def executeGeneration_ok[OF autoState_prompt] e
        userStop_def)
  show "map scene_id (timeline afterFirstPass) = [''1000'']"
    by (simp add: afterFirstPass_def loopBody_def Let_def executeGeneration_ok[OF autoState_prompt] e
        userStop_def a n)
qed

text \<open>C5, witness: Stop pressed during the second request of a run of three.\<close>

theorem sequencer_throttles_witness:
  "throttledFrom True (snd (handleStartGeneration noJson stopInSecond autoState)) \<and>
   endsWithoutPause (snd (handleStartGeneration noJson stopInSecond autoState)) \<and>
   \<not> stopAutoGenerationRef afterFirstPass \<and> int 1 < autoGenCount autoState \<and>
   gen stopInSecond 1 = GenerateReturns ''blob:v'' ''asset'' \<and> stopDuringGeneration stopInSecond 1 \<and>
   map scene_id (timeline (fst (autoLoop noJson autoState stopInSecond 1 True afterFirstPass)))
     = [''1000'', ''7000''] \<and>
   generateCalls (snd (autoLoop noJson autoState stopInSecond 1 True afterFirstPass)) = 1 \<and>
   \<not> list_ex isThrottle (snd (autoLoop noJson autoState stopInSecond 1 True afterFirstPass))"
proof -
  have h: "int 1 < autoGenCount autoState"
    "gen stopInSecond 1 = GenerateReturns ''blob:v'' ''asset''" "stopDuringGeneration stopInSecond 1"
    "\<forall>k. \<not> stopDuringDelay stopInSecond k" "clock stopInSecond 1 = 7000"
    by (simp_all add: autoState_def initialState_def stopInSecond_def)
  have n: "numberToString 7000 = ''7000''" by (simp_all add: numberToString_def natToString.simps digitChar_def)
  show ?thesis
    using sequencer_throttles [of noJson stopInSecond autoState
        "fst (handleStartGeneration noJson stopInSecond autoState)"
        "snd (handleStartGeneration noJson stopInSecond autoState)"
        True afterFirstPass 1 autoState "''a fox runs''" "''blob:v''" "''asset''"] h autoState_prompt
        afterFirstPass_fields
    by (simp add: n)
qed

subsection \<open>Appending scenes\<close>

text \<open>
  C9, as the code has it. Generations that are not refused append their scenes to the
  end of the live timeline in the order they complete: the timeline grows by their
  number, the scenes before stay, the new ids are the decimal clock readings in that
  order, and the last scene appended is the active one. The new ids are pairwise
  distinct exactly when the clock readings are.
\<close>

theorem append_in_order:
  "list_all promptAccepted gs \<longrightarrow>
   length (timeline (generateScenes js gs s)) = length (timeline s) + length gs \<and>
   take (length (timeline s)) (timeline (generateScenes js gs s)) = timeline s \<and>
   map scene_id (drop (length (timeline s)) (timeline (generateScenes js gs s)))
     = map (numberToString \<circ> clockOf) gs \<and>
   (gs \<noteq> [] \<longrightarrow> activeSceneIndex (generateScenes js gs s) = length (timeline s) + length gs - 1) \<and>
   (distinct (map scene_id (drop (length (timeline s)) (timeline (generateScenes js gs s))))
      \<longleftrightarrow> distinct (map clockOf gs))"
proof
  assume "list_all promptAccepted gs"
  from generateScenes_timeline[OF this, of js s] obtain new where new:
    "timeline (generateScenes js gs s) = timeline s @ new"
    "map scene_id new = map (numberToString \<circ> clockOf) gs"
    "gs \<noteq> [] \<longrightarrow> activeSceneIndex (generateScenes js gs s) = length (timeline s) + length gs - 1"
    by blast
  from new(2) have len: "length new = length gs" by (metis length_map)
  have "distinct (map (numberToString \<circ> clockOf) gs) = distinct (map clockOf gs)"
    using distinct_numberToString[of "map clockOf gs"] by simp
  with new len show "length (timeline (generateScenes js gs s)) = length (timeline s) + length gs \<and>
   take (length (timeline s)) (timeline (generateScenes js gs s)) = timeline s \<and>
   map scene_id (drop (length (timeline s)) (timeline (generateScenes js gs s)))
     = map (numberToString \<circ> clockOf) gs \<and>
   (gs \<noteq> [] \<longrightarrow> activeSceneIndex (generateScenes js gs s) = length (timeline s) + length gs - 1) \<and>
   (distinct (map scene_id (drop (length (timeline s)) (timeline (generateScenes js gs s))))
      \<longleftrightarrow> distinct (map clockOf gs))"
    by simp
qed

lemma autoState_prompt_single: "enhancedPrompt autoState False = Inr ''a fox runs''"
  by (simp add: enhancedPrompt_def autoState_def initialState_def Let_def blank_def isWhiteSpace_def truthy_def)

lemma demoState_prompt:
  "enhancedPrompt demoState isChain =
     Inr (if isChain then ''Continue the action naturally, maintaining visual consistency.'' else [])"
  by (simp add: enhancedPrompt_def demoState_def initialState_def Let_def blank_def)

text \<open>C9, witness: three scenes appended to a timeline of one.\<close>

theorem append_in_order_witness:
  "list_all promptAccepted threeGenerations \<and>
   length (timeline (generateScenes noJson threeGenerations demoState)) = 4 \<and>
   map scene_id (drop 1 (timeline (generateScenes noJson threeGenerations demoState)))
     = [''1000'', ''7000'', ''13000''] \<and>
   activeSceneIndex (generateScenes noJson threeGenerations demoState) = 3 \<and>
   distinct (map scene_id (drop 1 (timeline (generateScenes noJson threeGenerations demoState))))"
proof -
  have h: "list_all promptAccepted threeGenerations"
    by (simp add: threeGenerations_def promptAccepted_def demoState_prompt)
  have n: "numberToString 1000 = ''1000''" "numberToString 7000 = ''7000''"
    "numberToString 13000 = ''13000''" by (simp_all add: numberToString_def natToString.simps digitChar_def)
  have l: "length (timeline demoState) = 1" by (simp add: demoState_def)
  show ?thesis
    using append_in_order [of threeGenerations noJson demoState] h
    by (simp add: l) (simp add: threeGenerations_def clockOf_def n)
qed

text \<open>
  C9, counterexample: two scenes built at the same clock reading share their id, and one
  scene appended to a timeline of one makes a timeline of two.
\<close>

theorem append_same_clock_reading:
  "\<not> distinct (map scene_id (timeline (generateScenes noJson sameMillisecond autoState))) \<and>
   length (timeline (generateScenes noJson [(demoState, False, ''blob:v2'', ''asset'', 7000)] demoState)) \<noteq> 1"
proof -
  have "timeline autoState = []" "length (timeline demoState) = 1"
    by (simp_all add: autoState_def demoState_def initialState_def)
  then show ?thesis
    by (simp add: sameMillisecond_def executeGeneration_ok[OF autoState_prompt_single]
        executeGeneration_ok[OF demoState_prompt])
qed

subsection \<open>The duration control\<close>

lemma handleDurationChange_idem:
  "handleDurationChange v (handleDurationChange v s) = handleDurationChange v s"
  by (simp add: handleDurationChange_def Let_def length_patchAt patchAt_update)

lemma handleDurationChange_active:
  "activeSceneIndex s < length (timeline s) \<Longrightarrow>
   duration (timeline (handleDurationChange v s) ! activeSceneIndex s) = v"
  by (auto simp: handleDurationChange_def Let_def patchAt_update)

lemma handleDurationChange_range:
  "inSliderRange v \<Longrightarrow> durationsInRange s \<Longrightarrow> durationsInRange (handleDurationChange v s)"
  by (auto simp: handleDurationChange_def Let_def durationsInRange_def patchAt_update list_all_iff
      dest!: set_update_subset_insert[THEN subsetD])

lemma reportGenerationError_sceneDuration [simp]:
  "sceneDuration (reportGenerationError js msg s) = sceneDuration s"
  by (simp add: reportGenerationError_def Let_def)

lemma initialState_in_range: "durationsInRange initialState"
  by (simp add: durationsInRange_def initialState_def inSliderRange_def)

lemma executeGeneration_range:
  assumes c: "durationsInRange c" and s: "durationsInRange s"
  shows "durationsInRange (fst (snd (executeGeneration js c isChain out t s)))"
proof -
  obtain ok s' ev where eg: "executeGeneration js c isChain out t s = (ok, s', ev)"
    by (metis prod_cases3)
  have sd: "sceneDuration s' = sceneDuration s"
    using eg by (auto simp: executeGeneration_def Let_def appendScene_def
        split: GenOutcome.splits sum.splits)
  from executeGeneration_cases[OF eg] c s sd show ?thesis
    by (cases ok) (auto simp: eg durationsInRange_def newScene_def)
qed

lemma rangeInput_clamp: "rangeInput 1 15 v = max 1 (min 15 v)"
  by (simp add: rangeInput_def)

lemma rangeInput_in_range: "inSliderRange (rangeInput 1 15 v)"
  by (simp add: rangeInput_def inSliderRange_def)

lemma handleDurationChange_timeline:
  "activeSceneIndex s < length (timeline s) \<Longrightarrow>
   timeline (handleDurationChange v s) =
     (timeline s)[activeSceneIndex s := (timeline s ! activeSceneIndex s)\<lparr>duration := v\<rparr>]"
  by (auto simp: handleDurationChange_def Let_def patchAt_update)

lemma patchAt_map_duration:
  "(\<And>sc. duration (f sc) = duration sc) \<Longrightarrow> map duration (patchAt i f xs) = map duration xs"
  by (rule nth_equalityI) (simp_all add: length_patchAt nth_patchAt)

lemma patchAt_keeps_durations:
  assumes "\<And>sc. duration (f sc) = duration sc"
  shows "list_all (\<lambda>sc. inSliderRange (duration sc)) (patchAt i f xs)
     = list_all (\<lambda>sc. inSliderRange (duration sc)) xs"
proof -
  have e: "list_all (\<lambda>sc. inSliderRange (duration sc)) ys = list_all inSliderRange (map duration ys)"
    for ys :: "VideoScene list"
    by (simp add: list_all_iff)
  show ?thesis
    unfolding e patchAt_map_duration[OF assms] ..
qed

lemma voiceover_patches_range:
  "durationsInRange (voiceoverAttached i a w s) = durationsInRange s"
  "durationsInRange (voiceoverMerged i m s) = durationsInRange s"
  "durationsInRange (voiceoverMergeFailed i s) = durationsInRange s"
  by (simp_all add: durationsInRange_def voiceoverAttached_def voiceoverMerged_def
      voiceoverMergeFailed_def patchAt_keeps_durations)

lemma toggleTransition_range: "durationsInRange (toggleTransition i s) = durationsInRange s"
  by (simp add: durationsInRange_def toggleTransition_def patchAt_keeps_durations)

lemma clearTimeline_range: "durationsInRange s \<Longrightarrow> durationsInRange (clearTimeline b s)"
  by (simp add: durationsInRange_def clearTimeline_def)

text \<open>
  C3. Setting the duration through the control stores the value clamped to \<open>1..15\<close>:
  the active scene becomes the same scene with that duration, every other scene stays as
  it is, 0 yields 1 and 20 yields 15. Setting the same value twice leaves the state that
  setting it once leaves. The stored durations are in \<open>1..15\<close> from the start and stay
  there under the control, under a generation (whose scene takes the default), under
  clearing, under a change of transition and under the updaters of the voice-over: these
  are all the updates of the timeline and of the default.
\<close>

theorem duration_control_clamps:
  "(activeSceneIndex s < length (timeline s) \<longrightarrow>
      timeline (durationControl v s) =
        (timeline s)[activeSceneIndex s :=
           (timeline s ! activeSceneIndex s)\<lparr>duration := max 1 (min 15 v)\<rparr>] \<and>
      duration (timeline (durationControl 0 s) ! activeSceneIndex s) = 1 \<and>
      duration (timeline (durationControl 20 s) ! activeSceneIndex s) = 15 \<and>
      1 \<le> duration (timeline (durationControl v s) ! activeSceneIndex s) \<and>
      duration (timeline (durationControl v s) ! activeSceneIndex s) \<le> 15) \<and>
   sceneDuration (durationControl v s) = max 1 (min 15 v) \<and>
   durationControl v (durationControl v s) = durationControl v s \<and>
   durationsInRange initialState \<and>
   (durationsInRange s \<longrightarrow>
      durationsInRange (durationControl v s) \<and>
      durationsInRange (clearTimeline confirmed s) \<and>
      durationsInRange (toggleTransition i s) \<and>
      durationsInRange (voiceoverAttached i audio w s) \<and>
      durationsInRange (voiceoverMerged i merged s) \<and>
      durationsInRange (voiceoverMergeFailed i s)) \<and>
   (durationsInRange c \<and> durationsInRange s \<longrightarrow>
      durationsInRange (fst (snd (executeGeneration js c isChain out t s))))"
proof (intro conjI impI)
  assume a: "activeSceneIndex s < length (timeline s)"
  then show "timeline (durationControl v s) =
        (timeline s)[activeSceneIndex s :=
           (timeline s ! activeSceneIndex s)\<lparr>duration := max 1 (min 15 v)\<rparr>]"
    by (simp add: durationControl_def handleDurationChange_timeline rangeInput_clamp)
  from a show "duration (timeline (durationControl 0 s) ! activeSceneIndex s) = 1"
    by (simp add: durationControl_def handleDurationChange_active rangeInput_def)
  from a show "duration (timeline (durationControl 20 s) ! activeSceneIndex s) = 15"
    by (simp add: durationControl_def handleDurationChange_active rangeInput_def)
  from a have "duration (timeline (durationControl v s) ! activeSceneIndex s) = rangeInput 1 15 v"
    by (simp add: durationControl_def handleDurationChange_active)
  then show "1 \<le> duration (timeline (durationControl v s) ! activeSceneIndex s)"
    and "duration (timeline (durationControl v s) ! activeSceneIndex s) \<le> 15"
    by (simp_all add: rangeInput_def)
next
  show "sceneDuration (durationControl v s) = max 1 (min 15 v)"
    by (simp add: durationControl_def handleDurationChange_def Let_def rangeInput_clamp)
  show "durationControl v (durationControl v s) = durationControl v s"
    by (simp add: durationControl_def handleDurationChange_idem)
  show "durationsInRange initialState" by (rule initialState_in_range)
next
  assume r: "durationsInRange s"
  then show "durationsInRange (durationControl v s)"
    by (simp add: durationControl_def handleDurationChange_range rangeInput_in_range)
  from r show "durationsInRange (clearTimeline confirmed s)" by (rule clearTimeline_range)
  from r show "durationsInRange (toggleTransition i s)" by (simp add: toggleTransition_range)
  from r show "durationsInRange (voiceoverAttached i audio w s)"
    and "durationsInRange (voiceoverMerged i merged s)"
    and "durationsInRange (voiceoverMergeFailed i s)"
    by (simp_all add: voiceover_patches_range)
next
  assume "durationsInRange c \<and> durationsInRange s"
  then show "durationsInRange (fst (snd (executeGeneration js c isChain out t s)))"
    by (simp add: executeGeneration_range)
qed

text \<open>C3, witness: the control set to 0 and to 20 on a timeline of one scene, and a scene generated.\<close>

theorem duration_control_clamps_witness:
  "activeSceneIndex demoState < length (timeline demoState) \<and>
   durationsInRange demoState \<and>
   map duration (timeline (durationControl 0 demoState)) = [1] \<and>
   map duration (timeline (durationControl 20 demoState)) = [15] \<and>
   sceneDuration (durationControl 20 demoState) = 15 \<and>
   durationsInRange (durationControl 20 demoState) \<and>
   durationsInRange (fst (snd (executeGeneration noJson demoState False
      (GenerateReturns ''blob:v2'' ''asset'') 7000 demoState)))"
proof -
  have h: "activeSceneIndex demoState < length (timeline demoState)" "durationsInRange demoState"
    "activeSceneIndex demoState = 0"
    "timeline demoState = [demoScene ''1700000000000'' ''blob:v1'' 8]"
    by (simp_all add: demoState_def initialState_def demoScene_def inSliderRange_def durationsInRange_def)
  note w0 = duration_control_clamps [of demoState 0 True 0 "[]" "[]" "[]" demoState noJson False
        "GenerateReturns ''blob:v2'' ''asset''" 7000]
  note w20 = duration_control_clamps [of demoState 20 True 0 "[]" "[]" "[]" demoState noJson False
        "GenerateReturns ''blob:v2'' ''asset''" 7000]
  from w0 h have a: "map duration (timeline (durationControl 0 demoState)) = [1]"
    by simp
  from w20 h have b: "map duration (timeline (durationControl 20 demoState)) = [15]"
    by simp
  from w20 h have c: "sceneDuration (durationControl 20 demoState) = 15"
    "durationsInRange (durationControl 20 demoState)"
    "durationsInRange (fst (snd (executeGeneration noJson demoState False
      (GenerateReturns ''blob:v2'' ''asset'') 7000 demoState)))"
    by simp_all
  from a b c h(1,2) show ?thesis by blast
qed

lemma enhancedPrompt_extension:
  "timeline c \<noteq> [] \<Longrightarrow> \<exists>p. enhancedPrompt c isChain = Inr p"
  by (simp add: enhancedPrompt_def Let_def)

lemma handleDurationChange_timeline_empty:
  "(timeline (handleDurationChange v s) = []) = (timeline s = [])"
  using length_patchAt[of "activeSceneIndex s" "\<lambda>sc. sc\<lparr>duration := v\<rparr>" "timeline s"]
  by (simp add: handleDurationChange_def Let_def del: length_0_conv) (metis length_0_conv)

text \<open>
  C10. The duration control writes its value to the default for new scenes as well as
  to the active scene: after it, a generation that closes over the new render builds
  its scene with that duration.
\<close>

theorem duration_control_sets_default:
  "sceneDuration (handleDurationChange v s) = v \<and>
   (activeSceneIndex s < length (timeline s) \<longrightarrow>
      duration (timeline (handleDurationChange v s) ! activeSceneIndex s) = v \<and>
      fst (executeGeneration js (handleDurationChange v s) isChain (GenerateReturns u a) t s') \<and>
      duration (last (timeline (fst (snd
        (executeGeneration js (handleDurationChange v s) isChain (GenerateReturns u a) t s'))))) = v)"
proof (intro conjI impI)
  show sd: "sceneDuration (handleDurationChange v s) = v"
    by (simp add: handleDurationChange_def Let_def)
  assume a: "activeSceneIndex s < length (timeline s)"
  then show "duration (timeline (handleDurationChange v s) ! activeSceneIndex s) = v"
    by (rule handleDurationChange_active)
  from a have "timeline (handleDurationChange v s) \<noteq> []"
    by (auto simp: handleDurationChange_timeline_empty)
  from enhancedPrompt_extension[OF this] obtain p where
    p: "enhancedPrompt (handleDurationChange v s) isChain = Inr p" by blast
  show "fst (executeGeneration js (handleDurationChange v s) isChain (GenerateReturns u a) t s')"
    by (simp add: executeGeneration_ok[OF p])
  show "duration (last (timeline (fst (snd
        (executeGeneration js (handleDurationChange v s) isChain (GenerateReturns u a) t s'))))) = v"
    using sd
    by (simp add: executeGeneration_ok[OF p] newScene_def)
qed

text \<open>C10, witness: the slider moved from 8 to 4 on a timeline of one scene, then one more scene generated.\<close>

theorem duration_control_sets_default_witness:
  "activeSceneIndex demoState < length (timeline demoState) \<and>
   sceneDuration demoState = 8 \<and>
   sceneDuration (handleDurationChange 4 demoState) = 4 \<and>
   duration (timeline (handleDurationChange 4 demoState) ! activeSceneIndex demoState) = 4 \<and>
   duration (last (timeline (fst (snd
     (executeGeneration noJson (handleDurationChange 4 demoState) False
        (GenerateReturns ''blob:v2'' ''asset'') 7000 (handleDurationChange 4 demoState)))))) = 4"
proof -
  have h: "activeSceneIndex demoState < length (timeline demoState)" "sceneDuration demoState = 8"
    by (simp_all add: demoState_def initialState_def)
  show ?thesis
    using duration_control_sets_default [of 4 demoState noJson False "''blob:v2''" "''asset''" 7000
        "handleDurationChange 4 demoState"] h
    by simp
qed

subsection \<open>Playback\<close>

lemma audioPlayer_updPlayer [simp]: "audioPlayer (updPlayer p f m) = audioPlayer m"
  by (cases p) (simp_all add: updPlayer_def)

lemma transitionTimer_updPlayer [simp]: "transitionTimer (updPlayer p f m) = transitionTimer m"
  by (cases p) (simp_all add: updPlayer_def)

lemma now_updPlayer [simp]: "now (updPlayer p f m) = now m"
  by (cases p) (simp_all add: updPlayer_def)

lemma swapTimers_updPlayer [simp]: "swapTimers (updPlayer p f m) = swapTimers m"
  by (cases p) (simp_all add: updPlayer_def)

lemma player_updPlayer [simp]: "player p (updPlayer p f m) = f (player p m)"
  by (cases p) (simp_all add: updPlayer_def player_def)

lemma player_other_fields [simp]:
  "player p (m\<lparr>audioPlayer := x\<rparr>) = player p m"
  "player p (m\<lparr>transitionTimer := t\<rparr>) = player p m"
  "player p (m\<lparr>swapTimers := w\<rparr>) = player p m"
  "player p (m\<lparr>now := n\<rparr>) = player p m"
  by (cases p; simp add: player_def)+

lemma effect_audio:
  "sceneAt (timeline s) (activeSceneIndex s) = Some scene \<Longrightarrow>
   audioPlayer (playbackEffect s m) =
     (if truthy (audioUrl scene) \<and> \<not> truthy (mergedUrl scene)
      then (audioPlayer m)\<lparr>a_src := orElse (audioUrl scene) [],
             a_paused := (if isPlayingAll s then False else a_paused (audioPlayer m))\<rparr>
      else (audioPlayer m)\<lparr>a_paused := True\<rparr>)"
  by (simp add: playbackEffect_def Let_def)

lemma effect_timer:
  "sceneAt (timeline s) (activeSceneIndex s) = Some scene \<Longrightarrow>
   transitionTimer (playbackEffect s m) =
     (if isPlayingAll s then Some (now m + durationMs scene) else None)"
  by (simp add: playbackEffect_def Let_def)

lemma effect_timer_none:
  "\<not> isPlayingAll s \<Longrightarrow> transitionTimer (playbackEffect s m) = None"
  by (simp add: playbackEffect_def Let_def split: option.splits)

lemma effect_now [simp]: "now (playbackEffect s m) = now m"
  by (simp add: playbackEffect_def Let_def split: option.splits)

lemma effect_swapTimers [simp]: "swapTimers (playbackEffect s m) = swapTimers m"
  by (simp add: playbackEffect_def Let_def split: option.splits)

lemma effect_player:
  "sceneAt (timeline s) (activeSceneIndex s) = Some scene \<Longrightarrow> isPlayingAll s \<Longrightarrow>
   orElse (mergedUrl scene) (url scene) \<noteq> [] \<Longrightarrow>
   player (activePlayer s) (playbackEffect s m) =
     (player (activePlayer s) m)\<lparr>v_src := orElse (mergedUrl scene) (url scene), v_loop := True, v_playing := True\<rparr>"
  by (simp add: playbackEffect_def Let_def)

lemma rerender_keeps_silence:
  "audioSilencedWhenMerged old m \<Longrightarrow> audioSilencedWhenMerged new (rerender old new m)"
proof (cases "effectDeps old = effectDeps new")
  case True
  then have "timeline old = timeline new" "activeSceneIndex old = activeSceneIndex new"
    by (simp_all add: effectDeps_def)
  moreover assume "audioSilencedWhenMerged old m"
  ultimately show ?thesis using True
    by (simp add: rerender_def audioSilencedWhenMerged_def)
next
  case False
  then show ?thesis
    by (auto simp: rerender_def audioSilencedWhenMerged_def effect_audio split: option.splits)
qed


lemma sceneAt_simps [simp]:
  "sceneAt (x # xs) 0 = Some x"
  "sceneAt [x, y] (Suc 0) = Some y"
  by (simp_all add: sceneAt_def)

lemma onEnded_movie: "isPlayingAll s \<Longrightarrow> onEnded (s, m) = (s, m)"
  by (simp add: onEnded_def)

lemma selectScene_clears:
  "transitionTimer (rerender s (selectScene idx s) m) = (if isPlayingAll s then None else
      (if effectDeps s \<noteq> effectDeps (selectScene idx s) then None else transitionTimer m))"
  by (auto simp: rerender_def selectScene_def effect_timer_none effectDeps_def)

lemma movie_two_scenes:
  assumes tl: "timeline s = [s1, s2]" and d: "duration s1 = 2" "duration s2 = 3"
    and nl: "\<not> isLooping s" and np: "\<not> isPlayingAll s" and ns: "swapTimers m = []"
  shows "snd (snd (run 3 (playMovie s m))) =
           [(now m + 2000 + transitionWindow s2, Advanced 1),
            (now m + 5000 + transitionWindow s2, Stopped)] \<and>
         \<not> isPlayingAll (fst (run 3 (playMovie s m))) \<and>
         step (run 3 (playMovie s m)) = None"
proof -
  define s0 where "s0 = handlePlayAll s"
  have s0: "timeline s0 = [s1, s2]" "activeSceneIndex s0 = 0" "isPlayingAll s0" "\<not> isLooping s0"
    "activePlayer s0 = A"
    using tl nl by (simp_all add: s0_def handlePlayAll_def)
  have deps: "effectDeps s \<noteq> effectDeps s0"
    using np s0 by (auto simp: effectDeps_def)
  define m0 where "m0 = playbackEffect s0 m"
  have pm: "playMovie s m = (s0, m0, [])"
    using deps by (simp add: playMovie_def rerender_def s0_def m0_def)
  have m0: "transitionTimer m0 = Some (now m + 2000)" "swapTimers m0 = []" "now m0 = now m"
    using s0 d ns by (simp_all add: m0_def effect_timer[where s=s0 and scene=s1] durationMs_def)
  show ?thesis
  proof (cases "transition s2 = cut")
    case True
    define sA where "sA = s0\<lparr>transitionType := cut, activeSceneIndex := Suc 0, activePlayer := B\<rparr>"
    define mA where "mA = playbackEffect sA (m0\<lparr>now := now m + 2000, transitionTimer := None\<rparr>)"
    have st1: "step (s0, m0, []) = Some (sA, mA, [(now m + 2000, Advanced (Suc 0))])"
      using s0 m0 True
      by (simp add: step_def fireDuration_def handleSceneEnd_def Let_def otherPlayer_def
          rerender_def effectDeps_def observe_def sA_def mA_def)
    have sA: "timeline sA = [s1, s2]" "activeSceneIndex sA = Suc 0" "isPlayingAll sA" "\<not> isLooping sA"
      using s0 by (simp_all add: sA_def)
    have mA: "transitionTimer mA = Some (now m + 5000)" "swapTimers mA = []"
      using sA d m0 by (simp_all add: mA_def effect_timer[where s=sA and scene=s2] durationMs_def)
    define sB where "sB = sA\<lparr>isPlayingAll := False, isTransitioning := False\<rparr>"
    define mB where "mB = playbackEffect sB (mA\<lparr>now := now m + 5000, transitionTimer := None\<rparr>)"
    have st2: "step (sA, mA, [(now m + 2000, Advanced (Suc 0))]) =
        Some (sB, mB, [(now m + 2000, Advanced (Suc 0)), (now m + 5000, Stopped)])"
      using sA mA
      by (simp add: step_def fireDuration_def handleSceneEnd_def Let_def
          rerender_def effectDeps_def observe_def sB_def mB_def)
    have mB: "transitionTimer mB = None" "swapTimers mB = []"
      using mA by (simp_all add: mB_def sB_def effect_timer_none)
    have st3: "step (sB, mB, l) = None" for l
      using mB by (simp add: step_def)
    have "run 3 (playMovie s m) = (sB, mB, [(now m + 2000, Advanced (Suc 0)), (now m + 5000, Stopped)])"
      by (simp add: pm numeral_3_eq_3 st1 st2 st3)
    with True st3 show ?thesis
      by (simp add: transitionWindow_def sB_def)
  next
    case False
    define sA where "sA = s0\<lparr>transitionType := transition s2, isTransitioning := True\<rparr>"
    define mA where "mA = m0\<lparr>now := now m + 2000, transitionTimer := None,
                              swapTimers := [(now m + 2800, Suc 0)]\<rparr>"
    have st1: "step (s0, m0, []) = Some (sA, mA, [])"
      using s0 m0 False
      by (simp add: step_def fireDuration_def handleSceneEnd_def Let_def
          rerender_def effectDeps_def observe_def sA_def mA_def)
    define sB where "sB = sA\<lparr>activeSceneIndex := Suc 0, activePlayer := B, isTransitioning := False\<rparr>"
    define mB where "mB = playbackEffect sB (mA\<lparr>now := now m + 2800, swapTimers := []\<rparr>)"
    have st2: "step (sA, mA, []) = Some (sB, mB, [(now m + 2800, Advanced (Suc 0))])"
      using s0
      by (simp add: step_def fireSwap_def Let_def otherPlayer_def
          rerender_def effectDeps_def observe_def sA_def mA_def sB_def mB_def)
    have sB: "timeline sB = [s1, s2]" "activeSceneIndex sB = Suc 0" "isPlayingAll sB" "\<not> isLooping sB"
      using s0 by (simp_all add: sB_def sA_def)
    have mB: "transitionTimer mB = Some (now m + 5800)" "swapTimers mB = []"
      using sB d by (simp_all add: mB_def effect_timer[where s=sB and scene=s2] durationMs_def mA_def)
    define sC where "sC = sB\<lparr>isPlayingAll := False, isTransitioning := False\<rparr>"
    define mC where "mC = playbackEffect sC (mB\<lparr>now := now m + 5800, transitionTimer := None\<rparr>)"
    have st3: "step (sB, mB, [(now m + 2800, Advanced (Suc 0))]) =
        Some (sC, mC, [(now m + 2800, Advanced (Suc 0)), (now m + 5800, Stopped)])"
      using sB mB
      by (simp add: step_def fireDuration_def handleSceneEnd_def Let_def
          rerender_def effectDeps_def observe_def sC_def mC_def)
    have mC: "transitionTimer mC = None" "swapTimers mC = []"
      using mB by (simp_all add: mC_def sC_def effect_timer_none)
    have st4: "step (sC, mC, l) = None" for l
      using mC by (simp add: step_def)
    have "run 3 (playMovie s m) = (sC, mC, [(now m + 2800, Advanced (Suc 0)), (now m + 5800, Stopped)])"
      by (simp add: pm numeral_3_eq_3 st1 st2 st3)
    with False st4 show ?thesis
      by (simp add: transitionWindow_def sC_def)
  qed
qed

subsection \<open>Voice-over\<close>

lemma blank_words: "\<not> blank ''old words''" "\<not> blank ''new words''"
  by (simp_all add: blank_def isWhiteSpace_def)

lemma demoState_fields:
  "timeline demoState = [demoScene ''1700000000000'' ''blob:v1'' 8]"
  "activeSceneIndex demoState = 0"
  "motionIntensity demoState = 5" "consistency demoState = 5" "outputFormat demoState = MP4"
  "sceneDuration demoState = 8" "isAutoAudio demoState = False"
  by (simp_all add: demoState_def initialState_def)

lemma voiceover_timeline [simp]:
  "timeline (voiceoverAttached i a w s) =
     patchAt i (\<lambda>sc. sc\<lparr>audioUrl := Some a, audioScript := Some w, isMerging := Some True\<rparr>) (timeline s)"
  "timeline (voiceoverMerged i m s) =
     patchAt i (\<lambda>sc. sc\<lparr>mergedUrl := Some m, isMerging := Some False\<rparr>) (timeline s)"
  "timeline (voiceoverMergeFailed i s) = patchAt i (\<lambda>sc. sc\<lparr>isMerging := Some False\<rparr>) (timeline s)"
  by (simp_all add: voiceoverAttached_def voiceoverMerged_def voiceoverMergeFailed_def)

lemma voiceover_activeSceneIndex [simp]:
  "activeSceneIndex (voiceoverAttached i a w s) = activeSceneIndex s"
  "activeSceneIndex (voiceoverMerged i m s) = activeSceneIndex s"
  "activeSceneIndex (voiceoverMergeFailed i s) = activeSceneIndex s"
  by (simp_all add: voiceoverAttached_def voiceoverMerged_def voiceoverMergeFailed_def)

lemma patchAt_single [simp]: "patchAt 0 f [x] = [f x]"
  by (simp add: patchAt_update)

text \<open>The manual voice-over, when nothing is refused before the merge.\<close>

lemma handleGenerateVoiceover_manual:
  assumes "timeline c \<noteq> []" "\<not> blank (voiceText c)" "speech env = Inr audio"
    and "sceneAt (timeline c) (activeSceneIndex c) = Some cur"
  shows "handleGenerateVoiceover False env c =
     (case mergeVideoAudio env (url cur) audio of
        Inr merged \<Rightarrow>
          voiceoverMerged (activeSceneIndex c) merged
            (duringMerge env (voiceoverAttached (activeSceneIndex c) audio (voiceText c)
               (duringSpeech env (c\<lparr>isGeneratingAudio := True\<rparr>))))
      | Inl msg \<Rightarrow>
          voiceoverMergeFailed (activeSceneIndex c)
            (duringMerge env (voiceoverAttached (activeSceneIndex c) audio (voiceText c)
               (duringSpeech env (c\<lparr>isGeneratingAudio := True\<rparr>)))))
     \<lparr>isGeneratingAudio := False\<rparr>"
  using assms by (simp add: handleGenerateVoiceover_def Let_def split: sum.splits)

lemma narratedState_eq:
  "narratedState =
     (voiceoverMerged 0 ''merged:blob:v1+blob:a0''
        (voiceoverAttached 0 ''blob:a0'' ''old words''
           (demoState\<lparr>voiceText := ''old words'', isGeneratingAudio := True\<rparr>)))
     \<lparr>isGeneratingAudio := False\<rparr>"
proof -
  have "handleGenerateVoiceover False firstVoiceover (demoState\<lparr>voiceText := ''old words''\<rparr>) =
     (case mergeVideoAudio firstVoiceover (url (demoScene ''1700000000000'' ''blob:v1'' 8)) ''blob:a0'' of
        Inr merged \<Rightarrow>
          voiceoverMerged (activeSceneIndex (demoState\<lparr>voiceText := ''old words''\<rparr>)) merged
            (duringMerge firstVoiceover (voiceoverAttached (activeSceneIndex (demoState\<lparr>voiceText := ''old words''\<rparr>)) ''blob:a0'' (voiceText (demoState\<lparr>voiceText := ''old words''\<rparr>))
               (duringSpeech firstVoiceover (demoState\<lparr>voiceText := ''old words''\<rparr>\<lparr>isGeneratingAudio := True\<rparr>))))
      | Inl msg \<Rightarrow>
          voiceoverMergeFailed (activeSceneIndex (demoState\<lparr>voiceText := ''old words''\<rparr>))
            (duringMerge firstVoiceover (voiceoverAttached (activeSceneIndex (demoState\<lparr>voiceText := ''old words''\<rparr>)) ''blob:a0'' (voiceText (demoState\<lparr>voiceText := ''old words''\<rparr>))
               (duringSpeech firstVoiceover (demoState\<lparr>voiceText := ''old words''\<rparr>\<lparr>isGeneratingAudio := True\<rparr>)))))
     \<lparr>isGeneratingAudio := False\<rparr>"
    by (rule handleGenerateVoiceover_manual)
       (simp_all add: demoState_fields blank_words firstVoiceover_def sceneAt_def)
  then show ?thesis
    by (simp add: narratedState_def demoState_fields firstVoiceover_def rejectingMerge_def
        pairMerge_def demoScene_def)
qed

lemma narratedState_fields:
  "timeline narratedState =
     [(demoScene ''1700000000000'' ''blob:v1'' 8)
        \<lparr>audioUrl := Some ''blob:a0'', audioScript := Some ''old words'',
         mergedUrl := Some ''merged:blob:v1+blob:a0'', isMerging := Some False\<rparr>]"
  "activeSceneIndex narratedState = 0"
  by (simp_all add: narratedState_eq demoState_fields)

lemma secondVoiceover_eq:
  "handleGenerateVoiceover False secondVoiceover (narratedState\<lparr>voiceText := ''new words''\<rparr>)
     = (voiceoverMergeFailed 0
         (voiceoverAttached 0 ''blob:a1'' ''new words''
           (narratedState\<lparr>voiceText := ''new words'', isGeneratingAudio := True\<rparr>)))
       \<lparr>isGeneratingAudio := False\<rparr>"
proof -
  let ?c = "narratedState\<lparr>voiceText := ''new words''\<rparr>"
  let ?cur = "(demoScene ''1700000000000'' ''blob:v1'' 8)
        \<lparr>audioUrl := Some ''blob:a0'', audioScript := Some ''old words'',
         mergedUrl := Some ''merged:blob:v1+blob:a0'', isMerging := Some False\<rparr>"
  have "handleGenerateVoiceover False secondVoiceover ?c =
     (case mergeVideoAudio secondVoiceover (url ?cur) ''blob:a1'' of
        Inr merged \<Rightarrow>
          voiceoverMerged (activeSceneIndex ?c) merged
            (duringMerge secondVoiceover (voiceoverAttached (activeSceneIndex ?c) ''blob:a1'' (voiceText ?c)
               (duringSpeech secondVoiceover (?c\<lparr>isGeneratingAudio := True\<rparr>))))
      | Inl msg \<Rightarrow>
          voiceoverMergeFailed (activeSceneIndex ?c)
            (duringMerge secondVoiceover (voiceoverAttached (activeSceneIndex ?c) ''blob:a1'' (voiceText ?c)
               (duringSpeech secondVoiceover (?c\<lparr>isGeneratingAudio := True\<rparr>)))))
     \<lparr>isGeneratingAudio := False\<rparr>"
    by (rule handleGenerateVoiceover_manual)
       (simp_all add: narratedState_fields blank_words secondVoiceover_def sceneAt_def)
  then show ?thesis
    by (simp add: narratedState_fields secondVoiceover_def rejectingMerge_def)
qed

text \<open>
  Where the second merge succeeds and nothing else touches the timeline, the merged
  asset is again the merge of the scene's current URLs.
\<close>

lemma remerge_success_restores:
  assumes "i < length (timeline s)" and "merge (url (timeline s ! i)) audio = Inr m"
  shows "mergedFromCurrent merge (timeline (voiceoverMerged i m (voiceoverAttached i audio w s)) ! i)"
  using assms by (simp add: nth_patchAt length_patchAt mergedFromCurrent_def)

text \<open>
  C1, at the failing input. A scene whose voice-over has been merged gets a second
  voice-over. The updater of line 400 attaches the new audio and leaves the merged
  asset of the old audio in place: that is the state the component renders while the
  merge is awaited. When the merge fails, the updater of line 409 leaves it in place
  too, for good: the scene's merged asset is not the merge of its current URLs.
\<close>

theorem stale_merge_after_regeneration:
  "mergedFromCurrent pairMerge (timeline narratedState ! 0) \<and>
   handleGenerateVoiceover False secondVoiceover (narratedState\<lparr>voiceText := ''new words''\<rparr>)
     = (voiceoverMergeFailed 0
         (voiceoverAttached 0 ''blob:a1'' ''new words''
           (narratedState\<lparr>voiceText := ''new words'', isGeneratingAudio := True\<rparr>)))
       \<lparr>isGeneratingAudio := False\<rparr> \<and>
   map audioUrl (timeline (voiceoverAttached 0 ''blob:a1'' ''new words'' narratedState))
     = [Some ''blob:a1''] \<and>
   map mergedUrl (timeline (voiceoverAttached 0 ''blob:a1'' ''new words'' narratedState))
     = [Some ''merged:blob:v1+blob:a0''] \<and>
   \<not> mergedFromCurrent pairMerge
        (timeline (voiceoverAttached 0 ''blob:a1'' ''new words'' narratedState) ! 0) \<and>
   \<not> mergedFromCurrent pairMerge
        (timeline (handleGenerateVoiceover False secondVoiceover
                     (narratedState\<lparr>voiceText := ''new words''\<rparr>)) ! 0)"
  by (simp add: secondVoiceover_eq narratedState_fields mergedFromCurrent_def pairMerge_def demoScene_def)

text \<open>Both failure updaters change nothing but \<^verbatim>\<open>isMerging\<close>, in any scene.\<close>

lemma narrationFailed_frame:
  "map (\<lambda>sc. sc\<lparr>isMerging := None\<rparr>) (narrationFailed i prev) = map (\<lambda>sc. sc\<lparr>isMerging := None\<rparr>) prev"
  by (simp add: narrationFailed_def patchId_def)

lemma voiceoverMergeFailed_frame:
  "map (\<lambda>sc. sc\<lparr>isMerging := None\<rparr>) (timeline (voiceoverMergeFailed i s))
     = map (\<lambda>sc. sc\<lparr>isMerging := None\<rparr>) (timeline s)"
  by (rule nth_equalityI) (simp_all add: length_patchAt nth_patchAt)

text \<open>
  C6, at the failing input. After the failed merge of the second voice-over the scene
  has \<^verbatim>\<open>isMerging = false\<close>, its video URL and duration as before, the new audio
  URL, and a merged asset that is still set: the one of the first voice-over.
\<close>

theorem failed_remerge_keeps_old_asset:
  "map isMerging (timeline (handleGenerateVoiceover False secondVoiceover
       (narratedState\<lparr>voiceText := ''new words''\<rparr>))) = [Some False] \<and>
   map mergedUrl (timeline (handleGenerateVoiceover False secondVoiceover
       (narratedState\<lparr>voiceText := ''new words''\<rparr>))) = [Some ''merged:blob:v1+blob:a0''] \<and>
   map audioUrl (timeline (handleGenerateVoiceover False secondVoiceover
       (narratedState\<lparr>voiceText := ''new words''\<rparr>))) = [Some ''blob:a1''] \<and>
   map url (timeline (handleGenerateVoiceover False secondVoiceover
       (narratedState\<lparr>voiceText := ''new words''\<rparr>))) = [''blob:v1''] \<and>
   map duration (timeline (handleGenerateVoiceover False secondVoiceover
       (narratedState\<lparr>voiceText := ''new words''\<rparr>))) = [8]"
  by (simp add: secondVoiceover_eq narratedState_fields demoScene_def)

lemma clearAndGenerate_timeline:
  "motionIntensity s = 5 \<Longrightarrow> consistency s = 5 \<Longrightarrow> outputFormat s = MP4 \<Longrightarrow> sceneDuration s = 8 \<Longrightarrow>
   timeline (clearAndGenerate s) =
     [demoScene ''9000'' ''blob:v9'' 8 \<lparr>asset := ''asset9'', prompt := ''a cat''\<rparr>] \<and>
   activeSceneIndex (clearAndGenerate s) = 0"
proof -
  assume a: "motionIntensity s = 5" "consistency s = 5" "outputFormat s = MP4" "sceneDuration s = 8"
  let ?c = "(clearTimeline True s)\<lparr>prompt_input := ''a cat''\<rparr>"
  have p: "enhancedPrompt ?c False = Inr ''a cat''"
    using a by (simp add: enhancedPrompt_def clearTimeline_def Let_def blank_def isWhiteSpace_def)
  have n: "numberToString 9000 = ''9000''"
    by (simp add: numberToString_def natToString.simps digitChar_def)
  have c: "timeline ?c = []" "sceneDuration ?c = 8"
    using a by (simp_all add: clearTimeline_def)
  show ?thesis
    by (simp add: clearAndGenerate_def Let_def executeGeneration_ok[OF p] n newScene_def demoScene_def c)
qed

text \<open>A completion addressed by id changes the scenes of that id and no other.\<close>

lemma narrationMerged_by_id:
  "k < length prev \<Longrightarrow>
   narrationMerged i m prev ! k =
     (if scene_id (prev ! k) = i then (prev ! k)\<lparr>mergedUrl := Some m, isMerging := Some False\<rparr>
      else prev ! k)"
  by (simp add: narrationMerged_def patchId_def)

text \<open>
  C2, at the failing input. A voice-over is requested for the only scene, id
  1700000000000. While the speech request is pending the user clears the timeline and
  generates a new scene, id 9000. The completions of \<^verbatim>\<open>handleGenerateVoiceover\<close>
  address position 0: the new scene receives the audio and the merge of the old scene's
  video. The same completions addressed by id, as the narration task of
  \<^verbatim>\<open>executeGeneration\<close> does, leave the new timeline alone.
\<close>

theorem late_voiceover_hits_other_scene:
  "map scene_id (timeline demoState) = [''1700000000000''] \<and>
   timeline (handleGenerateVoiceover False overtaken (demoState\<lparr>voiceText := ''new words''\<rparr>)) =
     [demoScene ''9000'' ''blob:v9'' 8
        \<lparr>asset := ''asset9'', prompt := ''a cat'', audioUrl := Some ''blob:a1'',
         audioScript := Some ''new words'', mergedUrl := Some ''merged:blob:v1+blob:a1'',
         isMerging := Some False\<rparr>] \<and>
   narrationMerged ''1700000000000'' ''merged:blob:v1+blob:a1''
     (narrationAttached ''1700000000000'' ''blob:a1'' ''new words''
        (timeline (clearAndGenerate (demoState\<lparr>voiceText := ''new words'', isGeneratingAudio := True\<rparr>))))
     = timeline (clearAndGenerate (demoState\<lparr>voiceText := ''new words'', isGeneratingAudio := True\<rparr>))"
proof -
  let ?c = "demoState\<lparr>voiceText := ''new words''\<rparr>"
  let ?cur = "demoScene ''1700000000000'' ''blob:v1'' 8"
  have cg: "timeline (clearAndGenerate (demoState\<lparr>voiceText := ''new words'', isGeneratingAudio := True\<rparr>)) =
     [demoScene ''9000'' ''blob:v9'' 8 \<lparr>asset := ''asset9'', prompt := ''a cat''\<rparr>]"
    using clearAndGenerate_timeline[of "demoState\<lparr>voiceText := ''new words'', isGeneratingAudio := True\<rparr>"]
    by (simp add: demoState_fields)
  have "handleGenerateVoiceover False overtaken ?c =
     (case mergeVideoAudio overtaken (url ?cur) ''blob:a1'' of
        Inr merged \<Rightarrow>
          voiceoverMerged (activeSceneIndex ?c) merged
            (duringMerge overtaken (voiceoverAttached (activeSceneIndex ?c) ''blob:a1'' (voiceText ?c)
               (duringSpeech overtaken (?c\<lparr>isGeneratingAudio := True\<rparr>))))
      | Inl msg \<Rightarrow>
          voiceoverMergeFailed (activeSceneIndex ?c)
            (duringMerge overtaken (voiceoverAttached (activeSceneIndex ?c) ''blob:a1'' (voiceText ?c)
               (duringSpeech overtaken (?c\<lparr>isGeneratingAudio := True\<rparr>)))))
     \<lparr>isGeneratingAudio := False\<rparr>"
    by (rule handleGenerateVoiceover_manual)
       (simp_all add: demoState_fields blank_words overtaken_def sceneAt_def)
  then have "timeline (handleGenerateVoiceover False overtaken ?c) =
     [demoScene ''9000'' ''blob:v9'' 8
        \<lparr>asset := ''asset9'', prompt := ''a cat'', audioUrl := Some ''blob:a1'',
         audioScript := Some ''new words'', mergedUrl := Some ''merged:blob:v1+blob:a1'',
         isMerging := Some False\<rparr>]"
    by (simp add: demoState_fields overtaken_def pairMerge_def cg) (simp add: demoScene_def)
  moreover have "map scene_id (timeline demoState) = [''1700000000000'']"
    by (simp add: demoState_fields demoScene_def)
  moreover have "narrationMerged ''1700000000000'' ''merged:blob:v1+blob:a1''
     (narrationAttached ''1700000000000'' ''blob:a1'' ''new words''
        (timeline (clearAndGenerate (demoState\<lparr>voiceText := ''new words'', isGeneratingAudio := True\<rparr>))))
     = timeline (clearAndGenerate (demoState\<lparr>voiceText := ''new words'', isGeneratingAudio := True\<rparr>))"
    by (simp add: cg narrationMerged_def narrationAttached_def patchId_def demoScene_def)
  ultimately show ?thesis by simp
qed

subsection \<open>Movie mode and the audio element\<close>

text \<open>
  C7. In movie mode the effect arms one timer for the active scene, due after the
  scene's declared duration in seconds (five when the duration is 0, the falsy case of
  \<^verbatim>\<open>scene.duration || 5\<close>), sets the active video element to loop, and the native
  end-of-media event does nothing; leaving movie mode by selecting a scene clears the
  timer. A timeline of declared durations 2 and 3 with looping off, left alone after
  Play Movie, advances exactly once and then stops: at 2000 ms and 5000 ms when the
  second scene is entered by a cut, and 800 ms later each (the transition window) when
  it is entered by a fade or a slide. Nothing is pending afterwards.
\<close>

theorem movie_mode_follows_declared_duration:
  "(isPlayingAll s \<and> sceneAt (timeline s) (activeSceneIndex s) = Some scene \<longrightarrow>
      transitionTimer (playbackEffect s m)
        = Some (now m + (if duration scene = 0 then 5 else duration scene) * 1000) \<and>
      (orElse (mergedUrl scene) (url scene) \<noteq> [] \<longrightarrow>
         v_loop (player (activePlayer s) (playbackEffect s m))) \<and>
      onEnded (s, m) = (s, m) \<and>
      transitionTimer (rerender s (selectScene idx s) (playbackEffect s m)) = None) \<and>
   (timeline s0 = [s1, s2] \<and> duration s1 = 2 \<and> duration s2 = 3 \<and>
    \<not> isLooping s0 \<and> \<not> isPlayingAll s0 \<and> swapTimers m0 = [] \<longrightarrow>
      snd (snd (run 3 (playMovie s0 m0))) =
        [(now m0 + 2000 + (if transition s2 = cut then 0 else 800), Advanced 1),
         (now m0 + 5000 + (if transition s2 = cut then 0 else 800), Stopped)] \<and>
      \<not> isPlayingAll (fst (run 3 (playMovie s0 m0))) \<and>
      step (run 3 (playMovie s0 m0)) = None)"
proof (intro conjI impI)
  assume a: "isPlayingAll s \<and> sceneAt (timeline s) (activeSceneIndex s) = Some scene"
  then show "transitionTimer (playbackEffect s m)
        = Some (now m + (if duration scene = 0 then 5 else duration scene) * 1000)"
    by (simp add: effect_timer durationMs_def)
  { assume "orElse (mergedUrl scene) (url scene) \<noteq> []"
    with a show "v_loop (player (activePlayer s) (playbackEffect s m))"
      by (simp add: effect_player) }
  from a show "onEnded (s, m) = (s, m)" by (simp add: onEnded_movie)
  from a show "transitionTimer (rerender s (selectScene idx s) (playbackEffect s m)) = None"
    by (simp add: selectScene_clears)
next
  assume "timeline s0 = [s1, s2] \<and> duration s1 = 2 \<and> duration s2 = 3 \<and>
    \<not> isLooping s0 \<and> \<not> isPlayingAll s0 \<and> swapTimers m0 = []"
  then have r: "snd (snd (run 3 (playMovie s0 m0))) =
           [(now m0 + 2000 + transitionWindow s2, Advanced 1),
            (now m0 + 5000 + transitionWindow s2, Stopped)] \<and>
         \<not> isPlayingAll (fst (run 3 (playMovie s0 m0))) \<and>
         step (run 3 (playMovie s0 m0)) = None"
    using movie_two_scenes[of s0 s1 s2 m0] by simp
  then show "snd (snd (run 3 (playMovie s0 m0))) =
        [(now m0 + 2000 + (if transition s2 = cut then 0 else 800), Advanced 1),
         (now m0 + 5000 + (if transition s2 = cut then 0 else 800), Stopped)]"
    by (simp add: transitionWindow_def)
  from r show "\<not> isPlayingAll (fst (run 3 (playMovie s0 m0)))"
    and "step (run 3 (playMovie s0 m0)) = None" by simp_all
qed

lemma twoSceneState_fields:
  "timeline twoSceneState =
     [demoScene ''1000'' ''blob:v1'' 2, (demoScene ''7000'' ''blob:v2'' 3)\<lparr>transition := fade\<rparr>]"
  "\<not> isLooping twoSceneState" "\<not> isPlayingAll twoSceneState"
  by (simp_all add: twoSceneState_def initialState_def)

lemma handlePlayAll_fields:
  "timeline s \<noteq> [] \<Longrightarrow> isPlayingAll (handlePlayAll s)"
  "timeline s \<noteq> [] \<Longrightarrow> activeSceneIndex (handlePlayAll s) = 0"
  "timeline s \<noteq> [] \<Longrightarrow> activePlayer (handlePlayAll s) = A"
  "timeline (handlePlayAll s) = timeline s"
  by (simp_all add: handlePlayAll_def)

text \<open>C7, witness: the two-scene timeline whose second scene fades in, played from time 0.\<close>

theorem movie_mode_follows_declared_duration_witness:
  "isPlayingAll (handlePlayAll twoSceneState) \<and>
   transitionTimer (playbackEffect (handlePlayAll twoSceneState) idleMedia) = Some 2000 \<and>
   v_loop (playerA (playbackEffect (handlePlayAll twoSceneState) idleMedia)) \<and>
   onEnded (handlePlayAll twoSceneState, idleMedia) = (handlePlayAll twoSceneState, idleMedia) \<and>
   transitionTimer (rerender (handlePlayAll twoSceneState) (selectScene 1 (handlePlayAll twoSceneState))
      (playbackEffect (handlePlayAll twoSceneState) idleMedia)) = None \<and>
   snd (snd (run 3 (playMovie twoSceneState idleMedia))) = [(2800, Advanced 1), (5800, Stopped)] \<and>
   \<not> isPlayingAll (fst (run 3 (playMovie twoSceneState idleMedia))) \<and>
   step (run 3 (playMovie twoSceneState idleMedia)) = None"
proof -
  let ?s1 = "demoScene ''1000'' ''blob:v1'' 2"
  let ?s2 = "(demoScene ''7000'' ''blob:v2'' 3)\<lparr>transition := fade\<rparr>"
  have h: "isPlayingAll (handlePlayAll twoSceneState)"
    "sceneAt (timeline (handlePlayAll twoSceneState)) (activeSceneIndex (handlePlayAll twoSceneState)) = Some ?s1"
    "activePlayer (handlePlayAll twoSceneState) = A"
    by (simp_all add: handlePlayAll_fields twoSceneState_fields)
  have d: "duration ?s1 = 2" "duration ?s2 = 3" "transition ?s2 = fade"
    "orElse (mergedUrl ?s1) (url ?s1) \<noteq> []"
    by (simp_all add: demoScene_def orElse_def)
  have m: "swapTimers idleMedia = []" "now idleMedia = 0"
    by (simp_all add: idleMedia_def)
  show ?thesis
    using movie_mode_follows_declared_duration [of "handlePlayAll twoSceneState" ?s1 idleMedia 1
        twoSceneState ?s1 ?s2 idleMedia] h d m twoSceneState_fields
    by (simp add: player_def)
qed

text \<open>
  What the effect does achieve: after it has run, an active scene with a merged asset
  (\<^verbatim>\<open>mergedUrl\<close> set and not empty) has the audio element paused, after any render.
\<close>

lemma effect_silences_audio_element: "audioSilencedWhenMerged s (playbackEffect s m)"
  by (auto simp: audioSilencedWhenMerged_def effect_audio split: option.splits)

lemma render_silences_audio_element:
  "audioSilencedWhenMerged new (rerenderAfterSetTimeline new m)"
  "audioSilencedWhenMerged old m \<Longrightarrow> audioSilencedWhenMerged new (rerender old new m)"
  by (simp_all add: rerenderAfterSetTimeline_def effect_silences_audio_element rerender_keeps_silence)

text \<open>
  With no scene at the active index (the timeline was cleared) the effect returns at
  line 631 and the audio element stays as it was, playing if it was playing.
\<close>

lemma effect_without_scene:
  "sceneAt (timeline s) (activeSceneIndex s) = None \<Longrightarrow>
   audioPlayer (playbackEffect s m) = audioPlayer m"
  by (simp add: playbackEffect_def)

text \<open>In movie mode the effect drives the active video element and leaves the other one alone.\<close>

lemma effect_other_player:
  "isPlayingAll s \<Longrightarrow> q \<noteq> activePlayer s \<Longrightarrow> player q (playbackEffect s m) = player q m"
  by (cases q; cases "activePlayer s")
     (simp_all add: playbackEffect_def Let_def player_def updPlayer_def split: option.splits)

lemma mixedState_fields:
  "timeline mixedState = [mergedFirst, audioOnlySecond]"
  "\<not> isPlayingAll mixedState" "\<not> isLooping mixedState"
  by (simp_all add: mixedState_def initialState_def)

lemma mixed_scene_fields:
  "mergedUrl mergedFirst = Some ''blob:m1''" "url mergedFirst = ''blob:v1''" "duration mergedFirst = 2"
  "mergedUrl audioOnlySecond = None" "audioUrl audioOnlySecond = Some ''blob:a2''"
  "url audioOnlySecond = ''blob:v2''" "transition audioOnlySecond = cut"
  by (simp_all add: mergedFirst_def audioOnlySecond_def demoScene_def)

text \<open>
  C8, at the failing input. A movie of two scenes is played: the first has a merged
  asset, the second has a voice-over whose merge failed. While the first scene is
  active, player A plays the merged asset and the audio element is paused. At 2000 ms
  the movie cuts to the second scene: player B plays its video and the audio element
  plays its voice-over, and player A, which no code pauses, is still playing the merged
  asset of the first scene, in a loop.
\<close>

theorem hidden_buffer_keeps_playing_merged_asset:
  "a_paused (audioPlayer (fst (snd (playMovie mixedState idleMedia)))) \<and>
   playerA (fst (snd (playMovie mixedState idleMedia)))
     = \<lparr>v_src = ''blob:m1'', v_loop = True, v_playing = True\<rparr> \<and>
   now (fst (snd (run 1 (playMovie mixedState idleMedia)))) = 2000 \<and>
   activeSceneIndex (fst (run 1 (playMovie mixedState idleMedia))) = 1 \<and>
   activePlayer (fst (run 1 (playMovie mixedState idleMedia))) = B \<and>
   playerB (fst (snd (run 1 (playMovie mixedState idleMedia))))
     = \<lparr>v_src = ''blob:v2'', v_loop = True, v_playing = True\<rparr> \<and>
   playerA (fst (snd (run 1 (playMovie mixedState idleMedia))))
     = \<lparr>v_src = ''blob:m1'', v_loop = True, v_playing = True\<rparr> \<and>
   audioPlayer (fst (snd (run 1 (playMovie mixedState idleMedia))))
     = \<lparr>a_src = ''blob:a2'', a_paused = False\<rparr>"
proof -
  define s0 where "s0 = handlePlayAll mixedState"
  have s0: "timeline s0 = [mergedFirst, audioOnlySecond]" "activeSceneIndex s0 = 0" "isPlayingAll s0"
    "\<not> isLooping s0" "activePlayer s0 = A"
    using mixedState_fields by (simp_all add: s0_def handlePlayAll_def)
  have deps: "effectDeps mixedState \<noteq> effectDeps s0"
    using mixedState_fields s0 by (auto simp: effectDeps_def)
  define m0 where "m0 = playbackEffect s0 idleMedia"
  have pm: "playMovie mixedState idleMedia = (s0, m0, [])"
    using deps by (simp add: playMovie_def rerender_def s0_def m0_def)
  have sc0: "sceneAt (timeline s0) (activeSceneIndex s0) = Some mergedFirst"
    by (simp add: s0)
  have t1: "truthy (mergedUrl mergedFirst)" "orElse (mergedUrl mergedFirst) (url mergedFirst) = ''blob:m1''"
    by (simp_all add: truthy_def orElse_def mixed_scene_fields)
  have m0a: "audioPlayer m0 = \<lparr>a_src = [], a_paused = True\<rparr>"
    using t1 by (simp add: m0_def effect_audio[OF sc0] idleMedia_def)
  have m0p: "playerA m0 = \<lparr>v_src = ''blob:m1'', v_loop = True, v_playing = True\<rparr>"
    using effect_player[OF sc0 s0(3), of idleMedia] t1
    by (simp add: m0_def s0 player_def idleMedia_def)
  have m0t: "transitionTimer m0 = Some 2000" "swapTimers m0 = []"
    using s0 by (simp_all add: m0_def effect_timer[OF sc0] durationMs_def mixed_scene_fields idleMedia_def)
  define s1 where "s1 = s0\<lparr>transitionType := cut, activeSceneIndex := Suc 0, activePlayer := B\<rparr>"
  define m1 where "m1 = playbackEffect s1 (m0\<lparr>now := 2000, transitionTimer := None\<rparr>)"
  have st: "step (s0, m0, []) = Some (s1, m1, [(2000, Advanced (Suc 0))])"
    using s0 m0t
    by (simp add: step_def fireDuration_def handleSceneEnd_def Let_def otherPlayer_def
        rerender_def effectDeps_def observe_def s1_def m1_def mixed_scene_fields)
  have s1: "timeline s1 = [mergedFirst, audioOnlySecond]" "activeSceneIndex s1 = Suc 0" "isPlayingAll s1"
    "activePlayer s1 = B"
    using s0 by (simp_all add: s1_def)
  have sc1: "sceneAt (timeline s1) (activeSceneIndex s1) = Some audioOnlySecond"
    by (simp add: s1)
  have t2: "truthy (audioUrl audioOnlySecond)" "\<not> truthy (mergedUrl audioOnlySecond)"
    "orElse (mergedUrl audioOnlySecond) (url audioOnlySecond) = ''blob:v2''"
    "orElse (audioUrl audioOnlySecond) [] = ''blob:a2''"
    by (simp_all add: truthy_def orElse_def mixed_scene_fields)
  have m1a: "audioPlayer m1 = \<lparr>a_src = ''blob:a2'', a_paused = False\<rparr>"
    using t2 s1 by (simp add: m1_def effect_audio[OF sc1] m0a)
  have m1b: "playerB m1 = \<lparr>v_src = ''blob:v2'', v_loop = True, v_playing = True\<rparr>"
    using effect_player[OF sc1 s1(3), of "m0\<lparr>now := 2000, transitionTimer := None\<rparr>"] t2
    by (simp add: m1_def s1 player_def m0_def)
  have m1p: "playerA m1 = \<lparr>v_src = ''blob:m1'', v_loop = True, v_playing = True\<rparr>"
    using effect_other_player[of s1 A "m0\<lparr>now := 2000, transitionTimer := None\<rparr>"] s1 m0p
    by (simp add: m1_def player_def)
  have m1n: "now m1 = 2000"
    by (simp add: m1_def)
  have r: "run 1 (playMovie mixedState idleMedia) = (s1, m1, [(2000, Advanced (Suc 0))])"
    by (simp add: pm st)
  show ?thesis
    unfolding r unfolding pm
    by (simp add: m0a m0p m1a m1b m1p m1n s1)
qed

end
